theory Spec2Isabelle
  imports Complex_Main
begin

section \<open>Data model of \<open>app.py\<close>\<close>

text \<open>
  The session state of the dashboard holds two lists of dictionaries,
  \<^verbatim>\<open>channels: {id, title, handle, thumbnail, uploads_id, folder_id}\<close> and
  \<^verbatim>\<open>folders: {id, name}\<close>. The dictionaries always carry exactly these keys, so
  they are records; the field names are prefixed (\<open>ch_\<close>, \<open>fo_\<close>, \<open>v_\<close>) because the
  same key occurs in several dictionaries.
\<close>

record channel =
  ch_id :: string
  ch_title :: string
  ch_handle :: string
  ch_thumbnail :: string
  ch_uploads_id :: string
  ch_folder_id :: string

record folder =
  fo_id :: string
  fo_name :: string

text \<open>
  A Python \<open>datetime\<close>: the wall-clock reading in microseconds and the optional
  offset (\<open>tzinfo\<close>). \<^verbatim>\<open>replace(tzinfo=None)\<close> drops the offset and keeps the wall
  clock. A \<open>timedelta\<close> is a number of microseconds. The year range 1..9999 of
  Python's \<open>datetime\<close> is not modelled.
\<close>

record datetime =
  wall :: int
  tzinfo :: "int option"

type_synonym timedelta = int

definition replace_tzinfo_None :: "datetime \<Rightarrow> datetime" where
  "replace_tzinfo_None dt = dt\<lparr>tzinfo := None\<rparr>"

definition timedelta_days :: "int \<Rightarrow> timedelta" where
  "timedelta_days n = n * 86400 * 1000000"

text \<open>
  \<^verbatim>\<open>timedelta.total_seconds()\<close> is the quotient of the microseconds by \<open>10^6\<close>. Python
  returns the nearest float; the model keeps the exact rational. The comparison with
  \<open>60\<close> is the same on both, since a timedelta below one minute is at most
  \<open>59.999999\<close> seconds and floats near 60 are far finer than a microsecond.
\<close>

definition total_seconds :: "timedelta \<Rightarrow> rat" where
  "total_seconds td = of_int td / 1000000"

record video =
  v_id :: string
  v_channel_id :: string
  v_channel_title :: string
  v_title :: string
  v_thumbnail :: string
  v_published_at :: datetime
  v_view_count :: int
  v_like_count :: int
  v_comment_count :: int
  v_duration_sec :: rat
  v_is_short :: bool
  v_url :: string

section \<open>Exceptions\<close>

datatype error = HttpError | KeyError | ValueError | RecursionError | OtherError

text \<open>\<open>req\<close> is a subscript \<^verbatim>\<open>d[k]\<close>: an absent key raises \<open>KeyError\<close>.\<close>

definition req :: "'a option \<Rightarrow> error + 'a" where
  "req x = (case x of None \<Rightarrow> Inl KeyError | Some v \<Rightarrow> Inr v)"

fun bnd :: "error + 'a \<Rightarrow> ('a \<Rightarrow> error + 'b) \<Rightarrow> error + 'b" where
  "bnd (Inl e) f = Inl e"
| "bnd (Inr x) f = f x"

lemma bnd_cong [fundef_cong]:
  "m = m' \<Longrightarrow> (\<And>x. m' = Inr x \<Longrightarrow> f x = f' x) \<Longrightarrow> bnd m f = bnd m' f'"
  by (cases m') auto

lemma bnd_eq_Inr: "bnd m f = Inr y \<longleftrightarrow> (\<exists>x. m = Inr x \<and> f x = Inr y)"
  by (cases m) auto

lemma req_eq_Inr: "req x = Inr y \<longleftrightarrow> x = Some y"
  by (cases x) (auto simp: req_def)

section \<open>Responses of the remote API\<close>

text \<open>
  The resources returned by the YouTube Data API, restricted to the keys the program
  reads. A chain of subscripts such as \<^verbatim>\<open>item['snippet']['publishedAt']\<close> is one
  optional field: \<open>None\<close> when a key on the path is absent (the chain then raises
  \<open>KeyError\<close>). A dictionary read with \<^verbatim>\<open>.get\<close> is a record of its own. A response
  is the list under its \<open>items\<close> key; the program reads it with \<^verbatim>\<open>.get('items')\<close>,
  so an absent key and an empty list behave alike.
\<close>

record playlist_item =
  pi_publishedAt :: "string option"
  pi_videoId :: "string option"

record thumbnails =
  th_medium :: "string option option"
  th_default :: "string option option"

record statistics =
  viewCount :: "string option"
  likeCount :: "string option"
  commentCount :: "string option"

record video_item =
  vi_id :: "string option"
  vi_title :: "string option"
  vi_thumbnails :: "thumbnails option"
  vi_publishedAt :: "string option"
  vi_statistics :: "statistics option"
  vi_duration :: "string option"

record channel_snippet =
  cs_title :: "string option"
  cs_customUrl :: "string option"
  cs_thumb_default_url :: "string option"

record channel_item =
  ci_id :: "string option"
  ci_snippet :: "channel_snippet option"
  ci_uploads :: "string option"

record search_item =
  si_channelId :: "string option"

datatype lookup = ForHandle string | ById string

datatype api_call =
  Build
| ChannelsList lookup
| SearchList string
| PlaylistItemsList string
| VideosList string

text \<open>
  Everything outside the program: the remote API (a function of the request), the
  library parsers \<^verbatim>\<open>datetime.fromisoformat\<close>, \<^verbatim>\<open>isodate.parse_duration\<close> (followed
  by \<open>total_seconds\<close>, which a year/month \<open>Duration\<close> lacks) and \<^verbatim>\<open>int\<close> on a
  string, the two clocks \<^verbatim>\<open>datetime.now()\<close> and \<^verbatim>\<open>time.time()\<close>, and the timer of
  the cache of \<^verbatim>\<open>st.cache_data\<close>. The calls into the API client run on the interpreter's
  call stack: \<open>build_frames\<close> and \<open>execute_frames\<close> are the numbers of frames that
  \<^verbatim>\<open>build(...)\<close> and the construction and execution of a request need below their own;
  the source does not tell which of the two is larger.
\<close>

record env =
  build_ok :: bool
  channels_list :: "lookup \<Rightarrow> error + channel_item list"
  search_list :: "string \<Rightarrow> error + search_item list"
  playlistItems_list :: "string \<Rightarrow> error + playlist_item list"
  videos_list :: "string \<Rightarrow> error + video_item list"
  fromisoformat :: "string \<Rightarrow> error + datetime"
  parse_duration :: "string \<Rightarrow> error + timedelta"
  py_int :: "string \<Rightarrow> error + int"
  datetime_now :: int
  time_time :: rat
  cache_clock :: rat
  build_frames :: nat
  execute_frames :: nat

section \<open>Program state and effects\<close>

datatype ui_msg =
  ErrorApiConnect      \<comment> \<open>\<^verbatim>\<open>st.error\<close>: API connection failed\<close>
| ErrorChannelNotFound \<comment> \<open>\<^verbatim>\<open>st.error\<close>: the channel cannot be found\<close>
| WarningAlreadyRegistered \<comment> \<open>\<^verbatim>\<open>st.warning\<close>: the channel is already registered\<close>
| ErrorApi             \<comment> \<open>\<^verbatim>\<open>st.error\<close>: API error\<close>
| ErrorNoApiKey        \<comment> \<open>\<^verbatim>\<open>st.error\<close>: enter the API key first\<close>
| SuccessFolderAdded string
| SuccessChannelAdded string

text \<open>
  An entry of the cache that \<^verbatim>\<open>@st.cache_data(ttl=600)\<close> keeps for \<open>get_recent_videos\<close>:
  the returned list, the page elements the call produced (replayed on a hit) and the
  reading of the cache timer when it was stored.
\<close>

record cache_entry =
  ce_value :: "video list"
  ce_elements :: "ui_msg list"
  ce_stored :: rat

text \<open>
  \<open>channels\<close> and \<open>folders\<close> are \<^verbatim>\<open>st.session_state\<close>; \<open>shown\<close> are the messages put
  on the page, \<open>requests\<close> the calls made to the API client, \<open>printed\<close> the lines
  written by \<^verbatim>\<open>print\<close> (channel title and exception). \<open>cache\<close> is the cache of
  \<open>get_recent_videos\<close>; its key is the hash of the arguments whose names do not start
  with an underscore, that is of \<open>api_key\<close> alone.
\<close>

record world =
  channels :: "channel list"
  folders :: "folder list"
  shown :: "ui_msg list"
  requests :: "api_call list"
  printed :: "(string \<times> error) list"
  cache :: "string \<rightharpoonup> cache_entry"

definition call :: "api_call \<Rightarrow> world \<Rightarrow> world" where
  "call r w = w\<lparr>requests := requests w @ [r]\<rparr>"

definition show_msg :: "ui_msg \<Rightarrow> world \<Rightarrow> world" where
  "show_msg m w = w\<lparr>shown := shown w @ [m]\<rparr>"

text \<open>\<^verbatim>\<open>get_youtube_service\<close>: \<open>True\<close> stands for the service object, \<open>False\<close> for \<open>None\<close>.\<close>

definition get_youtube_service :: "env \<Rightarrow> world \<Rightarrow> bool \<times> world" where
  "get_youtube_service e w =
     (if build_ok e then (True, call Build w)
      else (False, show_msg ErrorApiConnect (call Build w)))"

section \<open>The aggregator \<open>get_recent_videos\<close>\<close>

text \<open>\<^verbatim>\<open>s.replace('Z', '+00:00')\<close> replaces every \<open>Z\<close>.\<close>

definition replace_Z :: "string \<Rightarrow> string" where
  "replace_Z s = concat (map (\<lambda>c. if c = CHR ''Z'' then ''+00:00'' else [c]) s)"

text \<open>\<^verbatim>\<open>",".join(video_ids)\<close>\<close>

fun join_comma :: "string list \<Rightarrow> string" where
  "join_comma [] = []"
| "join_comma [x] = x"
| "join_comma (x # y # ys) = x @ '','' @ join_comma (y # ys)"

text \<open>
  The loop over the playlist items (lines 120-124). \<open>video_ids\<close> is local to the
  \<^verbatim>\<open>try\<close> block, so an exception loses it.
\<close>

fun window_loop :: "env \<Rightarrow> datetime \<Rightarrow> playlist_item list \<Rightarrow> string list \<Rightarrow> error + string list" where
  "window_loop e one_week_ago [] video_ids = Inr video_ids"
| "window_loop e one_week_ago (item # items) video_ids =
     bnd (req (pi_publishedAt item)) (\<lambda>s.
     bnd (fromisoformat e (replace_Z s)) (\<lambda>published_at.
       if wall (replace_tzinfo_None published_at) \<ge> wall one_week_ago
       then bnd (req (pi_videoId item)) (\<lambda>vid.
              window_loop e one_week_ago items (video_ids @ [vid]))
       else window_loop e one_week_ago items video_ids))"

text \<open>\<^verbatim>\<open>int(item['statistics'].get(k, 0))\<close>\<close>

definition stat_int :: "env \<Rightarrow> string option \<Rightarrow> error + int" where
  "stat_int e x = (case x of None \<Rightarrow> Inr 0 | Some s \<Rightarrow> py_int e s)"

text \<open>
  The body of the loop over the detail records (lines 137-153), up to the dictionary
  handed to \<open>append\<close>. The default of
  \<^verbatim>\<open>thumbnails.get('medium', thumbnails['default'])\<close> is evaluated before the call.
\<close>

definition make_video :: "env \<Rightarrow> channel \<Rightarrow> video_item \<Rightarrow> error + video" where
  "make_video e channel item =
     bnd (req (vi_duration item)) (\<lambda>d.
     bnd (parse_duration e d) (\<lambda>duration.
     let is_short = total_seconds duration < 60 in
     bnd (req (vi_id item)) (\<lambda>vid.
     bnd (req (vi_title item)) (\<lambda>title.
     bnd (req (vi_thumbnails item)) (\<lambda>thumbs.
     bnd (req (th_default thumbs)) (\<lambda>dflt.
     bnd (req (case th_medium thumbs of Some m \<Rightarrow> m | None \<Rightarrow> dflt)) (\<lambda>url.
     bnd (req (vi_publishedAt item)) (\<lambda>p.
     bnd (fromisoformat e (replace_Z p)) (\<lambda>published_at.
     bnd (req (vi_statistics item)) (\<lambda>stats.
     bnd (stat_int e (viewCount stats)) (\<lambda>views.
     bnd (stat_int e (likeCount stats)) (\<lambda>likes.
     bnd (stat_int e (commentCount stats)) (\<lambda>comments.
     Inr \<lparr> v_id = vid,
           v_channel_id = ch_id channel,
           v_channel_title = ch_title channel,
           v_title = title,
           v_thumbnail = url,
           v_published_at = published_at,
           v_view_count = views,
           v_like_count = likes,
           v_comment_count = comments,
           v_duration_sec = total_seconds duration,
           v_is_short = is_short,
           v_url = ''https://www.youtube.com/watch?v='' @ vid \<rparr>)))))))))))))"

text \<open>
  The loop over the detail records appends to \<open>all_videos\<close>, which lives outside the
  \<^verbatim>\<open>try\<close> block: the videos appended before an exception stay.
\<close>

fun detail_loop :: "env \<Rightarrow> channel \<Rightarrow> video_item list \<Rightarrow> video list \<Rightarrow> error option \<times> video list" where
  "detail_loop e channel [] all_videos = (None, all_videos)"
| "detail_loop e channel (item # items) all_videos =
     (case make_video e channel item of
        Inl err \<Rightarrow> (Some err, all_videos)
      | Inr v \<Rightarrow> detail_loop e channel items (all_videos @ [v]))"

text \<open>
  The \<^verbatim>\<open>try\<close> block for one channel (lines 112-153): the exception raised, if any,
  with \<open>all_videos\<close> and the world as they are at that moment.
\<close>

definition try_channel ::
  "env \<Rightarrow> datetime \<Rightarrow> channel \<Rightarrow> video list \<times> world \<Rightarrow> error option \<times> video list \<times> world" where
  "try_channel e one_week_ago channel s =
     (case s of (all_videos, w) \<Rightarrow>
       (let w1 = call (PlaylistItemsList (ch_uploads_id channel)) w in
        (case playlistItems_list e (ch_uploads_id channel) of
           Inl err \<Rightarrow> (Some err, all_videos, w1)
         | Inr pl_items \<Rightarrow>
            (case window_loop e one_week_ago pl_items [] of
               Inl err \<Rightarrow> (Some err, all_videos, w1)
             | Inr video_ids \<Rightarrow>
                (if video_ids = [] then (None, all_videos, w1)
                 else
                  (let w2 = call (VideosList (join_comma video_ids)) w1 in
                   (case videos_list e (join_comma video_ids) of
                      Inl err \<Rightarrow> (Some err, all_videos, w2)
                    | Inr vid_items \<Rightarrow>
                       (case detail_loop e channel vid_items all_videos of
                          (r, all_videos') \<Rightarrow> (r, all_videos', w2)))))))))"

text \<open>The \<^verbatim>\<open>for channel in _channels\<close> loop with its \<^verbatim>\<open>except Exception\<close> handler.\<close>

fun channels_loop ::
  "env \<Rightarrow> datetime \<Rightarrow> channel list \<Rightarrow> video list \<times> world \<Rightarrow> video list \<times> world" where
  "channels_loop e one_week_ago [] s = s"
| "channels_loop e one_week_ago (channel # rest) s =
     (case try_channel e one_week_ago channel s of
        (None, all_videos, w) \<Rightarrow> channels_loop e one_week_ago rest (all_videos, w)
      | (Some err, all_videos, w) \<Rightarrow>
          channels_loop e one_week_ago rest
            (all_videos, w\<lparr>printed := printed w @ [(ch_title channel, err)]\<rparr>))"

text \<open>
  The function under the decorator, \<^verbatim>\<open>get_recent_videos(_channels, api_key)\<close> of lines
  100-159: the returned list and the world after the call (\<open>chs\<close> is the parameter
  \<open>_channels\<close>). It runs at the top level of the script, where the call stack is
  ample.
\<close>

definition get_recent_videos :: "env \<Rightarrow> channel list \<Rightarrow> world \<Rightarrow> video list \<times> world" where
  "get_recent_videos e chs w =
     (if chs = [] then ([], w)
      else case get_youtube_service e w of
        (False, w') \<Rightarrow> ([], w')
      | (True, w') \<Rightarrow>
          let one_week_ago = \<lparr>wall = datetime_now e - timedelta_days 7, tzinfo = None\<rparr>
          in channels_loop e one_week_ago chs ([], w'))"

text \<open>
  The decorated function, which is what a caller of \<open>get_recent_videos\<close> invokes
  (line 99): \<^verbatim>\<open>@st.cache_data(ttl=600, show_spinner=False)\<close>. An entry is live for 600
  seconds of the cache timer (the boundary instant itself is left to the cache
  library). On a hit the stored list is returned and the stored page elements are
  replayed, and the body does not run; on a miss the body runs and its result is
  stored under the key. The underscore of \<open>_channels\<close> keeps the channel list out of the
  key (comment at line 101).
\<close>

definition cache_ttl :: rat where
  "cache_ttl = 600"

definition live_entry :: "env \<Rightarrow> world \<Rightarrow> string \<Rightarrow> cache_entry option" where
  "live_entry e w api_key =
     (case cache w api_key of
        None \<Rightarrow> None
      | Some entry \<Rightarrow>
          if cache_clock e < ce_stored entry + cache_ttl then Some entry else None)"

definition cached_get_recent_videos ::
  "env \<Rightarrow> channel list \<Rightarrow> string \<Rightarrow> world \<Rightarrow> video list \<times> world" where
  "cached_get_recent_videos e chs api_key w =
     (case live_entry e w api_key of
        Some entry \<Rightarrow> (ce_value entry, w\<lparr>shown := shown w @ ce_elements entry\<rparr>)
      | None \<Rightarrow>
          (case get_recent_videos e chs w of
             (all_videos, w') \<Rightarrow>
               (all_videos,
                w'\<lparr>cache := (cache w')(api_key \<mapsto>
                     \<lparr>ce_value = all_videos,
                      ce_elements = drop (length (shown w)) (shown w'),
                      ce_stored = cache_clock e\<rparr>)\<rparr>)))"

section \<open>The resolver \<open>fetch_channel_info\<close> and the side bar\<close>

text \<open>Python's truth test on an optional string: \<open>None\<close> and \<open>''\<close> are false.\<close>

definition truthy :: "string option \<Rightarrow> bool" where
  "truthy x = (case x of None \<Rightarrow> False | Some s \<Rightarrow> s \<noteq> [])"

text \<open>\<^verbatim>\<open>int(x)\<close> on a float truncates towards zero; \<^verbatim>\<open>str\<close> of an integer is decimal.\<close>

definition truncate_int :: "rat \<Rightarrow> int" where
  "truncate_int x = (if x \<ge> 0 then \<lfloor>x\<rfloor> else \<lceil>x\<rceil>)"

definition digit_char :: "nat \<Rightarrow> char" where
  "digit_char d = ''0123456789'' ! d"

fun str_nat :: "nat \<Rightarrow> string" where
  "str_nat n = (if n < 10 then [digit_char n] else str_nat (n div 10) @ [digit_char (n mod 10)])"

declare str_nat.simps [simp del]

definition str_int :: "int \<Rightarrow> string" where
  "str_int i = (if i < 0 then ''-'' @ str_nat (nat (- i)) else str_nat (nat i))"

text \<open>\<^verbatim>\<open>f"f-{int(time.time())}"\<close>\<close>

definition new_folder_id :: "env \<Rightarrow> string" where
  "new_folder_id e = ''f-'' @ str_int (truncate_int (time_time e))"

text \<open>
  The name given to the folder created with the first channel, a Korean string
  literal (``default folder''), as the bytes of its UTF-8 encoding.
\<close>

definition default_folder_name :: string where
  "default_folder_name =
     [CHR 0xEA, CHR 0xB8, CHR 0xB0, CHR 0xEB, CHR 0xB3, CHR 0xB8, CHR 0x20,
      CHR 0xED, CHR 0x8F, CHR 0xB4, CHR 0xEB, CHR 0x8D, CHR 0x94]"

definition startswith_at :: "string \<Rightarrow> bool" where
  "startswith_at s = (case s of [] \<Rightarrow> False | c # _ \<Rightarrow> c = CHR ''@'')"

definition lookup_request :: "string \<Rightarrow> lookup" where
  "lookup_request identifier =
     (if startswith_at identifier then ForHandle identifier else ById identifier)"

text \<open>
  The duplicate check (line 73): \<^verbatim>\<open>any(c['id'] == item['id'] for c in channels)\<close>
  reads \<^verbatim>\<open>item['id']\<close> only when there is a channel to compare with.
\<close>

definition duplicate_check :: "channel_item \<Rightarrow> channel list \<Rightarrow> error + bool" where
  "duplicate_check item chs =
     (if chs = [] then Inr False
      else bnd (req (ci_id item)) (\<lambda>i. Inr (i \<in> set (map ch_id chs))))"

text \<open>Lines 78-84: the target folder, created when there is none.\<close>

definition target_folder :: "env \<Rightarrow> world \<Rightarrow> string \<times> world" where
  "target_folder e w =
     (case folders w of
        [] \<Rightarrow> (new_folder_id e,
                w\<lparr>folders := folders w @ [\<lparr>fo_id = new_folder_id e, fo_name = default_folder_name\<rparr>]\<rparr>)
      | f # _ \<Rightarrow> (fo_id f, w))"

text \<open>Lines 86-93: the dictionary returned.\<close>

definition channel_record :: "channel_item \<Rightarrow> string \<Rightarrow> error + channel" where
  "channel_record item target_folder_id =
     bnd (req (ci_id item)) (\<lambda>i.
     bnd (req (ci_snippet item)) (\<lambda>snippet.
     bnd (req (cs_title snippet)) (\<lambda>title.
     bnd (req (cs_thumb_default_url snippet)) (\<lambda>thumb.
     bnd (req (ci_uploads item)) (\<lambda>uploads.
     Inr \<lparr> ch_id = i,
           ch_title = title,
           ch_handle = (case cs_customUrl snippet of None \<Rightarrow> [] | Some h \<Rightarrow> h),
           ch_thumbnail = thumb,
           ch_uploads_id = uploads,
           ch_folder_id = target_folder_id \<rparr>)))))"

text \<open>Lines 70-93, for the first item of a non-empty response.\<close>

definition resolve_item :: "env \<Rightarrow> channel_item \<Rightarrow> world \<Rightarrow> (error + channel option) \<times> world" where
  "resolve_item e item w =
     (case duplicate_check item (channels w) of
        Inl err \<Rightarrow> (Inl err, w)
      | Inr True \<Rightarrow> (Inr None, show_msg WarningAlreadyRegistered w)
      | Inr False \<Rightarrow>
          (case target_folder e w of
             (target_folder_id, w') \<Rightarrow>
               (case channel_record item target_folder_id of
                  Inl err \<Rightarrow> (Inl err, w')
                | Inr c \<Rightarrow> (Inr (Some c), w'))))"

text \<open>\<^verbatim>\<open>except HttpError\<close>: every other exception goes on to the caller.\<close>

definition except_HttpError ::
  "(error + channel option) \<times> world \<Rightarrow> (error + channel option) \<times> world" where
  "except_HttpError rw =
     (case rw of
        (Inl HttpError, w) \<Rightarrow> (Inr None, show_msg ErrorApi w)
      | _ \<Rightarrow> rw)"

text \<open>
  The recursion of \<open>fetch_channel_info\<close> is the one place where the call stack can run
  out. \<open>depth\<close> is the number of frames the interpreter still allows below the
  running invocation; a call that needs more raises \<open>RecursionError\<close> inside.
  In \<open>get_youtube_service\<close> this happens inside \<^verbatim>\<open>build\<close>, under \<^verbatim>\<open>except Exception\<close>
  (lines 40-44): the error is shown and \<open>None\<close> returned, as for any other failure
  of \<^verbatim>\<open>build\<close>. In a request it happens inside the \<^verbatim>\<open>try\<close> block of
  \<open>fetch_channel_info\<close>, whose handler catches \<open>HttpError\<close> only.
\<close>

definition get_youtube_service_at :: "nat \<Rightarrow> env \<Rightarrow> world \<Rightarrow> bool \<times> world" where
  "get_youtube_service_at depth e w =
     (if depth \<le> build_frames e then (False, show_msg ErrorApiConnect (call Build w))
      else get_youtube_service e w)"

definition execute_at :: "nat \<Rightarrow> env \<Rightarrow> error + 'a \<Rightarrow> error + 'a" where
  "execute_at depth e response =
     (if depth \<le> execute_frames e then Inl RecursionError else response)"

text \<open>
  \<^verbatim>\<open>fetch_channel_info(identifier, api_key, folders)\<close>. The result is the exception
  that leaves the function, \<open>None\<close>, or the channel dictionary. The function calls
  itself with the channel id found by the search, and the source sets no limit on
  these calls. The callee runs one frame deeper. The call itself always finds its
  frame: \<^verbatim>\<open>build\<close> has just run at the same depth.
\<close>

function fetch_channel_info ::
  "nat \<Rightarrow> env \<Rightarrow> string \<Rightarrow> world \<Rightarrow> (error + channel option) \<times> world" where
  "fetch_channel_info depth e identifier w =
     (case get_youtube_service_at depth e w of
        (False, w0) \<Rightarrow> (Inr None, w0)
      | (True, w0) \<Rightarrow>
          except_HttpError
           (let w1 = call (ChannelsList (lookup_request identifier)) w0 in
            (case execute_at depth e (channels_list e (lookup_request identifier)) of
               Inl err \<Rightarrow> (Inl err, w1)
             | Inr [] \<Rightarrow>
                 (let w2 = call (SearchList identifier) w1 in
                  (case execute_at depth e (search_list e identifier) of
                     Inl err \<Rightarrow> (Inl err, w2)
                   | Inr [] \<Rightarrow> (Inr None, show_msg ErrorChannelNotFound w2)
                   | Inr (found # _) \<Rightarrow>
                       (case si_channelId found of
                          None \<Rightarrow> (Inl KeyError, w2)
                        | Some channel_id \<Rightarrow>
                            fetch_channel_info (depth - 1) e channel_id w2)))
             | Inr (item # _) \<Rightarrow> resolve_item e item w1)))"
  by pat_completeness auto
termination
  by (relation "measure (\<lambda>(depth, e, identifier, w). depth)")
     (auto simp: get_youtube_service_at_def split: if_splits)

declare fetch_channel_info.simps [simp del]

text \<open>
  The button that adds a folder (lines 176-183), once clicked. \<^verbatim>\<open>st.rerun\<close> is not
  modelled.
\<close>

definition add_folder_button :: "env \<Rightarrow> string \<Rightarrow> world \<Rightarrow> world" where
  "add_folder_button e new_folder w =
     (if new_folder \<noteq> [] then
        show_msg (SuccessFolderAdded new_folder)
          (w\<lparr>folders := folders w @ [\<lparr>fo_id = new_folder_id e, fo_name = new_folder\<rparr>]\<rparr>)
      else w)"

text \<open>
  The button that adds a channel (lines 190-216), once clicked. \<open>pick\<close> is the entry
  chosen in the folder select box, which is shown only when there is a folder.
  \<^verbatim>\<open>st.cache_data.clear()\<close> empties the cache; \<^verbatim>\<open>st.rerun\<close> is not modelled.
\<close>

definition selected_folder_for_add :: "string \<Rightarrow> world \<Rightarrow> string option" where
  "selected_folder_for_add pick w = (if folders w = [] then None else Some pick)"

definition add_channel_button ::
  "nat \<Rightarrow> env \<Rightarrow> string \<Rightarrow> string \<Rightarrow> string \<Rightarrow> world \<Rightarrow> error option \<times> world" where
  "add_channel_button depth e api_key new_channel_id pick w =
     (let sel = selected_folder_for_add pick w in
      if api_key = [] then (None, show_msg ErrorNoApiKey w)
      else if new_channel_id \<noteq> [] then
        (case fetch_channel_info depth e new_channel_id w of
           (Inl err, w') \<Rightarrow> (Some err, w')
         | (Inr None, w') \<Rightarrow> (None, w')
         | (Inr (Some channel_info), w') \<Rightarrow>
             (let channel_info' =
                    (if truthy sel then channel_info\<lparr>ch_folder_id := the sel\<rparr>
                     else channel_info)
              in (None, show_msg (SuccessChannelAdded (ch_title channel_info'))
                          (w'\<lparr>channels := channels w' @ [channel_info'],
                              cache := Map.empty\<rparr>))))
      else (None, w))"

text \<open>The refresh button (lines 255-257), once clicked.\<close>

definition refresh_button :: "world \<Rightarrow> world" where
  "refresh_button w = w\<lparr>cache := Map.empty\<rparr>"

section \<open>The filter and the dashboard\<close>

text \<open>Lines 273-280: the hierarchical filter.\<close>

definition hierarchical_filter ::
  "video list \<Rightarrow> channel list \<Rightarrow> string option \<Rightarrow> string option \<Rightarrow> video list" where
  "hierarchical_filter videos chs selected_channel_id selected_folder_id =
     (if truthy selected_channel_id then
        filter (\<lambda>v. Some (v_channel_id v) = selected_channel_id) videos
      else if truthy selected_folder_id then
        (let folder_channel_ids =
               map ch_id (filter (\<lambda>c. Some (ch_folder_id c) = selected_folder_id) chs)
         in filter (\<lambda>v. v_channel_id v \<in> set folder_channel_ids) videos)
      else videos)"

text \<open>Lines 289-294: the radio button and the format filter.\<close>

datatype type_filter = AllFormats | LongForm | ShortForm

definition format_filter :: "type_filter \<Rightarrow> video list \<Rightarrow> video list" where
  "format_filter t videos =
     (case t of
        LongForm \<Rightarrow> filter (\<lambda>v. \<not> v_is_short v) videos
      | ShortForm \<Rightarrow> filter (\<lambda>v. v_is_short v) videos
      | AllFormats \<Rightarrow> videos)"

text \<open>Lines 306-309: the four metrics.\<close>

record metrics =
  total_videos :: nat
  total_views :: int
  total_likes :: int
  total_comments :: int

definition aggregate_stats :: "video list \<Rightarrow> metrics" where
  "aggregate_stats filtered_videos =
     \<lparr> total_videos = length filtered_videos,
       total_views = sum_list (map v_view_count filtered_videos),
       total_likes = sum_list (map v_like_count filtered_videos),
       total_comments = sum_list (map v_comment_count filtered_videos) \<rparr>"

text \<open>Lines 298-315: what the main pane shows.\<close>

datatype pane = InfoEnterApiKey | InfoAddChannel | WarningNoRecentVideos | Metrics metrics

definition dashboard :: "string \<Rightarrow> channel list \<Rightarrow> video list \<Rightarrow> pane" where
  "dashboard api_key chs filtered_videos =
     (if api_key = [] then InfoEnterApiKey
      else if chs = [] then InfoAddChannel
      else if filtered_videos = [] then WarningNoRecentVideos
      else Metrics (aggregate_stats filtered_videos))"

section \<open>Auxiliary notions for the statements\<close>

text \<open>
  The start of the window, as \<open>get_recent_videos\<close> computes it, and a world in
  which nothing has happened yet.
\<close>

definition window_start :: "env \<Rightarrow> datetime" where
  "window_start e = \<lparr>wall = datetime_now e - timedelta_days 7, tzinfo = None\<rparr>"

definition blank :: world where
  "blank = \<lparr>channels = [], folders = [], shown = [], requests = [], printed = [],
             cache = Map.empty\<rparr>"

text \<open>
  What the \<^verbatim>\<open>try\<close> block of one channel appends to \<open>all_videos\<close>, and the exception it
  raises, if any. Both are independent of the videos collected before and of the world.
\<close>

definition contribution :: "env \<Rightarrow> datetime \<Rightarrow> channel \<Rightarrow> video list" where
  "contribution e owa c = fst (snd (try_channel e owa c ([], blank)))"

definition raised :: "env \<Rightarrow> datetime \<Rightarrow> channel \<Rightarrow> error option" where
  "raised e owa c = fst (try_channel e owa c ([], blank))"

text \<open>
  The details response of a channel agrees with its playlist listing when it answers
  only the ids that were asked for and reports, for each of them, the timestamp the
  listing gives for that id. The program checks neither.
\<close>

definition details_agree :: "env \<Rightarrow> datetime \<Rightarrow> channel \<Rightarrow> bool" where
  "details_agree e owa c =
     (case playlistItems_list e (ch_uploads_id c) of
        Inl _ \<Rightarrow> True
      | Inr pl_items \<Rightarrow>
         (case window_loop e owa pl_items [] of
            Inl _ \<Rightarrow> True
          | Inr video_ids \<Rightarrow>
             (case videos_list e (join_comma video_ids) of
                Inl _ \<Rightarrow> True
              | Inr vid_items \<Rightarrow>
                 (\<forall>d \<in> set vid_items.
                    (\<exists>vid \<in> set video_ids. vi_id d = Some vid) \<and>
                    (\<forall>p \<in> set pl_items.
                       pi_videoId p = vi_id d \<longrightarrow> pi_publishedAt p = vi_publishedAt d)))))"

text \<open>
  The test of lines 122-123 on one item of the playlist listing.
\<close>

definition in_window :: "env \<Rightarrow> datetime \<Rightarrow> playlist_item \<Rightarrow> bool" where
  "in_window e owa item =
     (case pi_publishedAt item of
        None \<Rightarrow> False
      | Some s \<Rightarrow>
          (case fromisoformat e (replace_Z s) of
             Inl _ \<Rightarrow> False
           | Inr dt \<Rightarrow> wall owa \<le> wall (replace_tzinfo_None dt)))"

text \<open>
  A details request agrees with the window when it asks for exactly the ids of the
  items of the channel's playlist listing that pass the test, in the order of the listing.
\<close>

definition asked_in_window :: "env \<Rightarrow> datetime \<Rightarrow> channel \<Rightarrow> string \<Rightarrow> bool" where
  "asked_in_window e owa c s \<longleftrightarrow>
     (\<exists>pl_items video_ids.
        playlistItems_list e (ch_uploads_id c) = Inr pl_items \<and>
        map Some video_ids = map pi_videoId (filter (in_window e owa) pl_items) \<and>
        s = join_comma video_ids)"

text \<open>
  The number of name searches among the requests, and the channel resource an
  identifier leads to through the lookups and searches of \<open>fetch_channel_info\<close>, when
  the call stack suffices at every level it passes.
\<close>

fun count_searches :: "api_call list \<Rightarrow> nat" where
  "count_searches [] = 0"
| "count_searches (SearchList q # rs) = Suc (count_searches rs)"
| "count_searches (_ # rs) = count_searches rs"

fun resolved_item :: "nat \<Rightarrow> env \<Rightarrow> string \<Rightarrow> channel_item option" where
  "resolved_item depth e identifier =
     (if depth \<le> build_frames e \<or> depth \<le> execute_frames e then None
      else
       (case channels_list e (lookup_request identifier) of
          Inl _ \<Rightarrow> None
        | Inr (item # _) \<Rightarrow> Some item
        | Inr [] \<Rightarrow>
           (case search_list e identifier of
              Inl _ \<Rightarrow> None
            | Inr [] \<Rightarrow> None
            | Inr (found # _) \<Rightarrow>
               (case si_channelId found of
                  None \<Rightarrow> None
                | Some channel_id \<Rightarrow> resolved_item (depth - 1) e channel_id))))"

declare resolved_item.simps [simp del]

section \<open>A sample environment\<close>

text \<open>
  A fixed environment for the concrete runs below. Wall clocks count microseconds
  from 1 January 2024, 00:00; \<^verbatim>\<open>datetime.now()\<close> reads 21 January, so the window starts
  on 14 January. Playlist \<open>U1\<close> lists videos one, six and ten days old; playlist
  \<open>U2\<close> lists two recent videos, the second of which comes back without a duration.
  \<^verbatim>\<open>time.time()\<close> reads 1700000000.2 and the cache timer 1000; \<^verbatim>\<open>build\<close> needs two
  frames below its own and a request three. The handle \<open>@cycle\<close> and the name ``cycle tv''
  lead to channel \<open>UC1\<close>; the name ``old name'' is found as \<open>UC2\<close>, whose lookup is
  empty and whose search finds \<open>UC3\<close>.
\<close>

definition demo_fromisoformat :: "string \<Rightarrow> error + datetime" where
  "demo_fromisoformat s =
     (if s = ''2024-01-20T00:00:00+00:00'' then Inr \<lparr>wall = timedelta_days 19, tzinfo = Some 0\<rparr>
      else if s = ''2024-01-15T00:00:00+00:00'' then Inr \<lparr>wall = timedelta_days 14, tzinfo = Some 0\<rparr>
      else if s = ''2024-01-11T00:00:00+00:00'' then Inr \<lparr>wall = timedelta_days 10, tzinfo = Some 0\<rparr>
      else if s = ''2024-01-01T00:00:00+00:00'' then Inr \<lparr>wall = 0, tzinfo = Some 0\<rparr>
      else Inl ValueError)"

definition demo_parse_duration :: "string \<Rightarrow> error + timedelta" where
  "demo_parse_duration s =
     (if s = ''PT45S'' then Inr 45000000
      else if s = ''PT2M'' then Inr 120000000
      else if s = ''PT59.999S'' then Inr 59999000
      else if s = ''PT1M'' then Inr 60000000
      else Inl ValueError)"

definition demo_py_int :: "string \<Rightarrow> error + int" where
  "demo_py_int s =
     (if s = ''100'' then Inr 100 else if s = ''7'' then Inr 7 else Inl ValueError)"

definition demo_playlist_item :: "string \<Rightarrow> string \<Rightarrow> playlist_item" where
  "demo_playlist_item vid published = \<lparr>pi_publishedAt = Some published, pi_videoId = Some vid\<rparr>"

definition demo_video_item :: "string \<Rightarrow> string \<Rightarrow> string option \<Rightarrow> video_item" where
  "demo_video_item vid published dur =
     \<lparr> vi_id = Some vid, vi_title = Some vid,
       vi_thumbnails = Some \<lparr>th_medium = None, th_default = Some (Some ''t.jpg'')\<rparr>,
       vi_publishedAt = Some published,
       vi_statistics = Some \<lparr>viewCount = Some ''100'', likeCount = Some ''7'', commentCount = None\<rparr>,
       vi_duration = dur \<rparr>"

definition demo_channel_item :: "string \<Rightarrow> channel_item" where
  "demo_channel_item cid =
     \<lparr> ci_id = Some cid,
       ci_snippet = Some \<lparr>cs_title = Some ''Cycle'', cs_customUrl = Some ''@cycle'',
                          cs_thumb_default_url = Some ''c.jpg''\<rparr>,
       ci_uploads = Some (''UU'' @ cid) \<rparr>"

definition demo_resolved :: "string \<Rightarrow> string \<Rightarrow> channel" where
  "demo_resolved cid fid =
     \<lparr> ch_id = cid, ch_title = ''Cycle'', ch_handle = ''@cycle'', ch_thumbnail = ''c.jpg'',
       ch_uploads_id = ''UU'' @ cid, ch_folder_id = fid \<rparr>"

definition demo_env :: env where
  "demo_env =
     \<lparr> build_ok = True,
       channels_list = (\<lambda>q.
         if q = ForHandle ''@cycle'' \<or> q = ById ''UC1'' then Inr [demo_channel_item ''UC1'']
         else if q = ById ''UC3'' then Inr [demo_channel_item ''UC3'']
         else Inr []),
       search_list = (\<lambda>q.
         if q = ''cycle tv'' then Inr [\<lparr>si_channelId = Some ''UC1''\<rparr>]
         else if q = ''old name'' then Inr [\<lparr>si_channelId = Some ''UC2''\<rparr>]
         else if q = ''UC2'' then Inr [\<lparr>si_channelId = Some ''UC3''\<rparr>]
         else Inr []),
       playlistItems_list = (\<lambda>p.
         if p = ''U1'' then
           Inr [demo_playlist_item ''v1'' ''2024-01-20T00:00:00Z'',
                demo_playlist_item ''v2'' ''2024-01-15T00:00:00Z'',
                demo_playlist_item ''v0'' ''2024-01-11T00:00:00Z'']
         else if p = ''U2'' then
           Inr [demo_playlist_item ''v3'' ''2024-01-20T00:00:00Z'',
                demo_playlist_item ''v4'' ''2024-01-20T00:00:00Z'']
         else Inl HttpError),
       videos_list = (\<lambda>ids.
         if ids = ''v1,v2'' then
           Inr [demo_video_item ''v1'' ''2024-01-20T00:00:00Z'' (Some ''PT45S''),
                demo_video_item ''v2'' ''2024-01-15T00:00:00Z'' (Some ''PT2M'')]
         else if ids = ''v3,v4'' then
           Inr [demo_video_item ''v3'' ''2024-01-20T00:00:00Z'' (Some ''PT59.999S''),
                demo_video_item ''v4'' ''2024-01-20T00:00:00Z'' None]
         else Inl HttpError),
       fromisoformat = demo_fromisoformat,
       parse_duration = demo_parse_duration,
       py_int = demo_py_int,
       datetime_now = timedelta_days 20,
       time_time = Fract 17000000002 10,
       cache_clock = 1000,
       build_frames = 2,
       execute_frames = 3 \<rparr>"

definition demo_chan :: "string \<Rightarrow> string \<Rightarrow> channel" where
  "demo_chan cid uploads =
     \<lparr> ch_id = cid, ch_title = cid, ch_handle = [], ch_thumbnail = [],
       ch_uploads_id = uploads, ch_folder_id = ''f-1'' \<rparr>"

definition demo_member :: "string \<Rightarrow> string \<Rightarrow> channel" where
  "demo_member cid fid = (demo_chan cid (''U'' @ cid))\<lparr>ch_folder_id := fid\<rparr>"

definition demo_made :: "string \<Rightarrow> string \<Rightarrow> int \<Rightarrow> rat \<Rightarrow> bool \<Rightarrow> video" where
  "demo_made vid cid published secs short =
     \<lparr> v_id = vid, v_channel_id = cid, v_channel_title = cid, v_title = vid,
       v_thumbnail = ''t.jpg'', v_published_at = \<lparr>wall = published, tzinfo = Some 0\<rparr>,
       v_view_count = 100, v_like_count = 7, v_comment_count = 0,
       v_duration_sec = secs, v_is_short = short,
       v_url = ''https://www.youtube.com/watch?v='' @ vid \<rparr>"

definition demo_folders :: "folder list" where
  "demo_folders = [\<lparr>fo_id = ''f-1600000000'', fo_name = ''News''\<rparr>,
                   \<lparr>fo_id = ''f-1600000500'', fo_name = ''Music''\<rparr>]"

text \<open>
  The same environment, except that the details response dates video \<open>v1\<close> to
  1 January while the playlist listing dates it to 20 January.
\<close>

definition stale_env :: env where
  "stale_env = demo_env\<lparr>videos_list := (\<lambda>ids.
       if ids = ''v1,v2'' then
         Inr [demo_video_item ''v1'' ''2024-01-01T00:00:00Z'' (Some ''PT45S'')]
       else Inl HttpError)\<rparr>"

text \<open>
  The world after a first, cached call of the aggregator for channel \<open>C1\<close> under
  the API key \<open>key\<close>.
\<close>

definition warm :: world where
  "warm = snd (cached_get_recent_videos demo_env [demo_chan ''C1'' ''U1''] ''key'' blank)"

text \<open>
  An environment in which every lookup is empty and every search finds the query itself.
\<close>

definition loop_env :: env where
  "loop_env = demo_env\<lparr>channels_list := (\<lambda>_. Inr []),
                         search_list := (\<lambda>q. Inr [\<lparr>si_channelId = Some q\<rparr>])\<rparr>"

lemma str_nat_1700000000: "str_nat 1700000000 = ''1700000000''"
  by (simp add: str_nat.simps digit_char_def)

lemma truncate_int_Fract: "0 < b \<Longrightarrow> 0 \<le> a \<Longrightarrow> truncate_int (Fract a b) = a div b"
  by (simp add: truncate_int_def zero_le_Fract_iff)

lemmas demo_defs =
  demo_env_def demo_fromisoformat_def demo_parse_duration_def demo_py_int_def
  demo_playlist_item_def demo_video_item_def demo_chan_def demo_made_def
  demo_channel_item_def demo_resolved_def demo_member_def

lemmas run_defs =
  get_recent_videos_def get_youtube_service_def try_channel_def make_video_def
  call_def show_msg_def req_def stat_int_def replace_Z_def replace_tzinfo_None_def
  timedelta_days_def total_seconds_def blank_def window_start_def Let_def

lemmas resolver_defs =
  get_youtube_service_at_def execute_at_def get_youtube_service_def except_HttpError_def resolve_item_def duplicate_check_def
  target_folder_def channel_record_def lookup_request_def startswith_at_def
  call_def show_msg_def req_def blank_def Let_def
  new_folder_id_def str_int_def truncate_int_Fract str_nat_1700000000

section \<open>The filter and the metrics\<close>

text \<open>
  C1. The program tests a selection with Python's truth test, so a selection is set
  when it is an id other than the empty string. A set channel selection keeps exactly
  the videos of that channel, whatever the folder selection is; without a channel
  selection, a set folder selection keeps exactly the videos whose channel belongs to
  that folder; with neither, the list is unchanged.
\<close>

theorem hierarchical_filter_cases:
  "(truthy (Some cid) \<longrightarrow>
      hierarchical_filter videos chs (Some cid) sf = filter (\<lambda>v. v_channel_id v = cid) videos) \<and>
   (\<not> truthy sc \<and> truthy (Some fid) \<longrightarrow>
      hierarchical_filter videos chs sc (Some fid) =
        filter (\<lambda>v. \<exists>c \<in> set chs. ch_folder_id c = fid \<and> ch_id c = v_channel_id v) videos) \<and>
   (\<not> truthy sc \<and> \<not> truthy sf \<longrightarrow> hierarchical_filter videos chs sc sf = videos)"
  by (auto simp: hierarchical_filter_def Let_def image_iff intro!: filter_cong)

text \<open>
  C1, on a concrete input: folder \<open>F1\<close> holds channels \<open>C1\<close> and \<open>C2\<close>, folder \<open>F2\<close>
  holds \<open>C3\<close>. Selecting \<open>C1\<close> together with \<open>F2\<close> returns the video of \<open>C1\<close>;
  selecting \<open>F1\<close> alone returns the videos of \<open>C1\<close> and \<open>C2\<close>; selecting nothing
  returns all three.
\<close>

theorem hierarchical_filter_cases_witness:
  "truthy (Some ''C1'') \<and> \<not> truthy None \<and> truthy (Some ''F1'') \<and>
   hierarchical_filter
     [demo_made ''a'' ''C1'' 0 120 False, demo_made ''b'' ''C2'' 0 120 False,
      demo_made ''c'' ''C3'' 0 120 False]
     [demo_member ''C1'' ''F1'', demo_member ''C2'' ''F1'', demo_member ''C3'' ''F2'']
     (Some ''C1'') (Some ''F2'') = [demo_made ''a'' ''C1'' 0 120 False] \<and>
   hierarchical_filter
     [demo_made ''a'' ''C1'' 0 120 False, demo_made ''b'' ''C2'' 0 120 False,
      demo_made ''c'' ''C3'' 0 120 False]
     [demo_member ''C1'' ''F1'', demo_member ''C2'' ''F1'', demo_member ''C3'' ''F2'']
     None (Some ''F1'') = [demo_made ''a'' ''C1'' 0 120 False, demo_made ''b'' ''C2'' 0 120 False] \<and>
   hierarchical_filter
     [demo_made ''a'' ''C1'' 0 120 False, demo_made ''b'' ''C2'' 0 120 False,
      demo_made ''c'' ''C3'' 0 120 False]
     [demo_member ''C1'' ''F1'', demo_member ''C2'' ''F1'', demo_member ''C3'' ''F2'']
     None None =
     [demo_made ''a'' ''C1'' 0 120 False, demo_made ''b'' ''C2'' 0 120 False,
      demo_made ''c'' ''C3'' 0 120 False]"
  using hierarchical_filter_cases
          [of "''C1''"
              "[demo_made ''a'' ''C1'' 0 120 False, demo_made ''b'' ''C2'' 0 120 False,
      demo_made ''c'' ''C3'' 0 120 False]"
              "[demo_member ''C1'' ''F1'', demo_member ''C2'' ''F1'', demo_member ''C3'' ''F2'']"
              "Some ''F2''" None "''F1''"]
        hierarchical_filter_cases
          [of "''C1''"
              "[demo_made ''a'' ''C1'' 0 120 False, demo_made ''b'' ''C2'' 0 120 False,
      demo_made ''c'' ''C3'' 0 120 False]"
              "[demo_member ''C1'' ''F1'', demo_member ''C2'' ''F1'', demo_member ''C3'' ''F2'']"
              None None "''F1''"]
  by (simp add: truthy_def demo_defs)

text \<open>
  The empty string is an id that the truth test takes for no selection.
\<close>

lemma hierarchical_filter_empty_id:
  "hierarchical_filter videos chs (Some []) None = videos"
  by (simp add: hierarchical_filter_def truthy_def)

text \<open>
  C9. The four metrics of the empty video list are the count 0 and three sums 0: the
  length and the sums are defined on the empty list, no exception is raised.
\<close>

theorem aggregate_stats_empty:
  "aggregate_stats [] =
     \<lparr> total_videos = 0, total_views = 0, total_likes = 0, total_comments = 0 \<rparr>"
  by (simp add: aggregate_stats_def)

text \<open>
  The dashboard itself never reaches the metrics with an empty list: it shows the
  warning that no recent video matches.
\<close>

lemma dashboard_no_videos:
  "api_key \<noteq> [] \<Longrightarrow> chs \<noteq> [] \<Longrightarrow> dashboard api_key chs [] = WarningNoRecentVideos"
  by (simp add: dashboard_def)

section \<open>Properties of the aggregator\<close>

text \<open>
  The function under the decorator returns the empty list for an empty channel list
  at once, leaving the world as it is.
\<close>

lemma get_recent_videos_empty:
  "get_recent_videos e [] w = ([], w)"
  by (simp add: get_recent_videos_def)

subsection \<open>The structure of the result\<close>

lemma make_video_fields:
  assumes "make_video e c item = Inr v"
  shows "\<exists>d duration p.
           vi_duration item = Some d \<and> parse_duration e d = Inr duration \<and>
           v_duration_sec v = total_seconds duration \<and>
           v_is_short v = (total_seconds duration < 60) \<and>
           vi_id item = Some (v_id v) \<and>
           vi_publishedAt item = Some p \<and>
           fromisoformat e (replace_Z p) = Inr (v_published_at v) \<and>
           v_channel_id v = ch_id c"
  using assms unfolding make_video_def Let_def bnd_eq_Inr req_eq_Inr
  by (elim exE conjE) auto

lemma detail_loop_acc:
  "detail_loop e c items acc =
     (fst (detail_loop e c items []), acc @ snd (detail_loop e c items []))"
proof (induction items arbitrary: acc)
  case Nil
  show ?case by simp
next
  case (Cons item items)
  show ?case
  proof (cases "make_video e c item")
    case (Inl err)
    then show ?thesis by simp
  next
    case (Inr v)
    then show ?thesis
      using Cons.IH [of "acc @ [v]"] Cons.IH [of "[v]"] by simp
  qed
qed

lemma detail_loop_made:
  "v \<in> set (snd (detail_loop e c items [])) \<Longrightarrow> \<exists>item \<in> set items. make_video e c item = Inr v"
proof (induction items)
  case Nil
  then show ?case by simp
next
  case (Cons item items)
  show ?case
  proof (cases "make_video e c item")
    case (Inl err)
    with Cons.prems show ?thesis by simp
  next
    case (Inr v')
    with Cons.prems have "v = v' \<or> v \<in> set (snd (detail_loop e c items []))"
      using detail_loop_acc [of e c items "[v']"] by auto
    with Inr Cons.IH show ?thesis by auto
  qed
qed

lemma try_channel_acc:
  "try_channel e owa c (acc, w) =
     (raised e owa c, acc @ contribution e owa c,
      snd (snd (try_channel e owa c (acc, w))))"
  unfolding raised_def contribution_def try_channel_def Let_def
  using detail_loop_acc [of e c _ acc]
  by (auto split: sum.splits prod.splits)

lemma try_channel_printed:
  "printed (snd (snd (try_channel e owa c (acc, w)))) = printed w"
  unfolding try_channel_def Let_def call_def
  by (auto split: sum.splits prod.splits)

lemma channels_loop_append:
  "channels_loop e owa (xs @ ys) s = channels_loop e owa ys (channels_loop e owa xs s)"
  by (induction xs arbitrary: s) (auto split: prod.splits option.splits)

lemma channels_loop_videos:
  "fst (channels_loop e owa cs (acc, w)) = acc @ concat (map (contribution e owa) cs)"
proof (induction cs arbitrary: acc w)
  case Nil
  show ?case by simp
next
  case (Cons c cs)
  obtain w' where t: "try_channel e owa c (acc, w) = (raised e owa c, acc @ contribution e owa c, w')"
    using try_channel_acc [of e owa c acc w] by blast
  show ?case
    by (cases "raised e owa c") (simp_all add: t Cons.IH)
qed

lemma channels_loop_printed_mono:
  "set (printed w) \<subseteq> set (printed (snd (channels_loop e owa cs (acc, w))))"
proof (induction cs arbitrary: acc w)
  case Nil
  show ?case by simp
next
  case (Cons c cs)
  obtain w' where t: "try_channel e owa c (acc, w) = (raised e owa c, acc @ contribution e owa c, w')"
    using try_channel_acc [of e owa c acc w] by blast
  have p: "printed w' = printed w"
    using try_channel_printed [of e owa c acc w] t by simp
  show ?case
  proof (cases "raised e owa c")
    case None
    then show ?thesis using Cons.IH [of w' "acc @ contribution e owa c"] p by (simp add: t)
  next
    case (Some err)
    then show ?thesis
      using Cons.IH [of "w'\<lparr>printed := printed w' @ [(ch_title c, err)]\<rparr>" "acc @ contribution e owa c"] p
      by (auto simp add: t)
  qed
qed

lemma channels_loop_prints_error:
  assumes "raised e owa c = Some err"
  shows "(ch_title c, err) \<in> set (printed (snd (channels_loop e owa (c # cs) (acc, w))))"
proof -
  obtain w' where t: "try_channel e owa c (acc, w) = (Some err, acc @ contribution e owa c, w')"
    using try_channel_acc [of e owa c acc w] assms by auto
  show ?thesis
    using channels_loop_printed_mono
            [of "w'\<lparr>printed := printed w' @ [(ch_title c, err)]\<rparr>" e owa cs "acc @ contribution e owa c"]
    by (auto simp add: t)
qed

text \<open>
  The result is the concatenation, in the order of the channels, of what each channel
  contributes.
\<close>

lemma get_recent_videos_concat:
  "fst (get_recent_videos e cs w) =
     (if build_ok e then concat (map (contribution e (window_start e)) cs) else [])"
  by (simp add: get_recent_videos_def get_youtube_service_def window_start_def
        channels_loop_videos Let_def)

lemma window_loop_ids:
  "window_loop e owa items acc = Inr ids \<Longrightarrow> vid \<in> set ids \<Longrightarrow>
   vid \<in> set acc \<or>
   (\<exists>item \<in> set items. \<exists>s dt.
      pi_publishedAt item = Some s \<and> fromisoformat e (replace_Z s) = Inr dt \<and>
      wall owa \<le> wall dt \<and> pi_videoId item = Some vid)"
proof (induction items arbitrary: acc)
  case Nil
  then show ?case by simp
next
  case (Cons item items)
  from Cons.prems(1) obtain s dt where
    s: "pi_publishedAt item = Some s" and dt: "fromisoformat e (replace_Z s) = Inr dt" and
    rest: "(if wall owa \<le> wall (replace_tzinfo_None dt)
            then bnd (req (pi_videoId item)) (\<lambda>vid. window_loop e owa items (acc @ [vid]))
            else window_loop e owa items acc) = Inr ids"
    by (auto simp: bnd_eq_Inr req_eq_Inr)
  show ?case
  proof (cases "wall owa \<le> wall dt")
    case True
    with rest obtain v where v: "pi_videoId item = Some v"
      and l: "window_loop e owa items (acc @ [v]) = Inr ids"
      by (auto simp: bnd_eq_Inr req_eq_Inr replace_tzinfo_None_def)
    from Cons.IH [OF l Cons.prems(2)] show ?thesis
      using s dt v True by auto
  next
    case False
    with rest have l: "window_loop e owa items acc = Inr ids"
      by (simp add: replace_tzinfo_None_def)
    from Cons.IH [OF l Cons.prems(2)] show ?thesis by auto
  qed
qed

lemma contribution_made:
  assumes "v \<in> set (contribution e owa c)"
  shows "\<exists>pl_items video_ids vid_items item.
           playlistItems_list e (ch_uploads_id c) = Inr pl_items \<and>
           window_loop e owa pl_items [] = Inr video_ids \<and>
           videos_list e (join_comma video_ids) = Inr vid_items \<and>
           item \<in> set vid_items \<and> make_video e c item = Inr v"
proof -
  obtain pl_items where pl: "playlistItems_list e (ch_uploads_id c) = Inr pl_items"
    using assms by (cases "playlistItems_list e (ch_uploads_id c)")
      (auto simp: contribution_def try_channel_def Let_def)
  obtain video_ids where ids: "window_loop e owa pl_items [] = Inr video_ids"
    using assms pl by (cases "window_loop e owa pl_items []")
      (auto simp: contribution_def try_channel_def Let_def)
  have ne: "video_ids \<noteq> []"
    using assms pl ids by (auto simp: contribution_def try_channel_def Let_def)
  obtain vid_items where vr: "videos_list e (join_comma video_ids) = Inr vid_items"
    using assms pl ids ne by (cases "videos_list e (join_comma video_ids)")
      (auto simp: contribution_def try_channel_def Let_def)
  have "contribution e owa c = snd (detail_loop e c vid_items [])"
    using pl ids ne vr
    by (simp add: contribution_def try_channel_def Let_def split: prod.splits)
  with assms obtain item where "item \<in> set vid_items" "make_video e c item = Inr v"
    using detail_loop_made by metis
  with pl ids vr show ?thesis by blast
qed

text \<open>
  The requests of a run: a details request is made only for the ids of listed items
  that pass the window test.
\<close>

lemma window_loop_exact:
  "window_loop e owa items acc = Inr ids \<Longrightarrow>
   map Some ids = map Some acc @ map pi_videoId (filter (in_window e owa) items)"
proof (induction items arbitrary: acc)
  case Nil
  then show ?case by simp
next
  case (Cons item items)
  from Cons.prems obtain s dt where
    s: "pi_publishedAt item = Some s" and dt: "fromisoformat e (replace_Z s) = Inr dt" and
    rest: "(if wall owa \<le> wall (replace_tzinfo_None dt)
            then bnd (req (pi_videoId item)) (\<lambda>vid. window_loop e owa items (acc @ [vid]))
            else window_loop e owa items acc) = Inr ids"
    by (auto simp: bnd_eq_Inr req_eq_Inr)
  show ?case
  proof (cases "wall owa \<le> wall (replace_tzinfo_None dt)")
    case True
    with rest obtain v where v: "pi_videoId item = Some v"
      and l: "window_loop e owa items (acc @ [v]) = Inr ids"
      by (auto simp: bnd_eq_Inr req_eq_Inr)
    from Cons.IH [OF l] show ?thesis
      using s dt v True by (simp add: in_window_def)
  next
    case False
    with rest have l: "window_loop e owa items acc = Inr ids" by simp
    from Cons.IH [OF l] show ?thesis
      using s dt False by (simp add: in_window_def)
  qed
qed

lemma try_channel_requests:
  "\<exists>rs. requests (snd (snd (try_channel e owa c (acc, w)))) = requests w @ rs \<and>
        (\<forall>s. VideosList s \<in> set rs \<longrightarrow> asked_in_window e owa c s)"
proof (cases "playlistItems_list e (ch_uploads_id c)")
  case (Inl err)
  then show ?thesis by (simp add: try_channel_def Let_def call_def)
next
  case (Inr pl_items)
  note pl = this
  show ?thesis
  proof (cases "window_loop e owa pl_items []")
    case (Inl err)
    with pl show ?thesis by (simp add: try_channel_def Let_def call_def)
  next
    case (Inr video_ids)
    from window_loop_exact [OF Inr]
    have "asked_in_window e owa c (join_comma video_ids)"
      using pl by (auto simp: asked_in_window_def)
    with pl Inr show ?thesis
      by (auto simp: try_channel_def Let_def call_def split: sum.splits prod.splits)
  qed
qed

lemma channels_loop_requests:
  "\<exists>rs. requests (snd (channels_loop e owa cs (acc, w))) = requests w @ rs \<and>
        (\<forall>s. VideosList s \<in> set rs \<longrightarrow> (\<exists>c \<in> set cs. asked_in_window e owa c s))"
proof (induction cs arbitrary: acc w)
  case Nil
  show ?case by simp
next
  case (Cons c cs)
  obtain r acc1 w1 where t: "try_channel e owa c (acc, w) = (r, acc1, w1)"
    by (cases "try_channel e owa c (acc, w)") auto
  from try_channel_requests [of e owa c acc w] t obtain rs1 where
    r1: "requests w1 = requests w @ rs1" and
    a1: "\<forall>s. VideosList s \<in> set rs1 \<longrightarrow> asked_in_window e owa c s"
    by auto
  show ?case
  proof (cases r)
    case None
    from Cons.IH [of acc1 w1] obtain rs2 where
      r2: "requests (snd (channels_loop e owa cs (acc1, w1))) = requests w1 @ rs2" and
      a2: "\<forall>s. VideosList s \<in> set rs2 \<longrightarrow> (\<exists>c \<in> set cs. asked_in_window e owa c s)"
      by blast
    have "requests (snd (channels_loop e owa (c # cs) (acc, w))) = requests w @ (rs1 @ rs2)"
      using t None r1 r2 by simp
    moreover have "\<forall>s. VideosList s \<in> set (rs1 @ rs2) \<longrightarrow>
        (\<exists>c' \<in> set (c # cs). asked_in_window e owa c' s)"
      using a1 a2 by auto
    ultimately show ?thesis by blast
  next
    case (Some err)
    let ?w1 = "w1\<lparr>printed := printed w1 @ [(ch_title c, err)]\<rparr>"
    from Cons.IH [of acc1 ?w1] obtain rs2 where
      r2: "requests (snd (channels_loop e owa cs (acc1, ?w1))) = requests ?w1 @ rs2" and
      a2: "\<forall>s. VideosList s \<in> set rs2 \<longrightarrow> (\<exists>c \<in> set cs. asked_in_window e owa c s)"
      by blast
    have "requests (snd (channels_loop e owa (c # cs) (acc, w))) = requests w @ (rs1 @ rs2)"
      using t Some r1 r2 by simp
    moreover have "\<forall>s. VideosList s \<in> set (rs1 @ rs2) \<longrightarrow>
        (\<exists>c' \<in> set (c # cs). asked_in_window e owa c' s)"
      using a1 a2 by auto
    ultimately show ?thesis by blast
  qed
qed

lemma get_recent_videos_requests:
  "\<exists>rs. requests (snd (get_recent_videos e cs w)) = requests w @ rs \<and>
        (\<forall>s. VideosList s \<in> set rs \<longrightarrow>
           (\<exists>c \<in> set cs. asked_in_window e (window_start e) c s))"
proof (cases "cs = [] \<or> \<not> build_ok e")
  case True
  then show ?thesis
    by (auto simp: get_recent_videos_def get_youtube_service_def call_def show_msg_def)
next
  case False
  from channels_loop_requests [of e "window_start e" cs "[]" "call Build w"] obtain rs where
    r: "requests (snd (channels_loop e (window_start e) cs ([], call Build w))) =
          requests (call Build w) @ rs" and
    a: "\<forall>s. VideosList s \<in> set rs \<longrightarrow> (\<exists>c \<in> set cs. asked_in_window e (window_start e) c s)"
    by blast
  have "requests (snd (get_recent_videos e cs w)) = requests w @ (Build # rs)"
    using False r
    by (simp add: get_recent_videos_def get_youtube_service_def window_start_def Let_def call_def)
  moreover have "\<forall>s. VideosList s \<in> set (Build # rs) \<longrightarrow>
      (\<exists>c \<in> set cs. asked_in_window e (window_start e) c s)"
    using a by auto
  ultimately show ?thesis by blast
qed

subsection \<open>Runs in the sample environment\<close>

lemma demo_make_v1:
  "make_video demo_env (demo_chan ''C1'' ''U1'')
      (demo_video_item ''v1'' ''2024-01-20T00:00:00Z'' (Some ''PT45S''))
   = Inr (demo_made ''v1'' ''C1'' (timedelta_days 19) 45 True)"
  by (simp add: demo_defs run_defs)

lemma demo_make_v3:
  "make_video demo_env (demo_chan ''C2'' ''U2'')
      (demo_video_item ''v3'' ''2024-01-20T00:00:00Z'' (Some ''PT59.999S''))
   = Inr (demo_made ''v3'' ''C2'' (timedelta_days 19) (59999 / 1000) True)"
  by (simp add: demo_defs run_defs)

lemma demo_make_v5:
  "make_video demo_env (demo_chan ''C2'' ''U2'')
      (demo_video_item ''v5'' ''2024-01-20T00:00:00Z'' (Some ''PT1M''))
   = Inr (demo_made ''v5'' ''C2'' (timedelta_days 19) 60 False)"
  by (simp add: demo_defs run_defs)

lemma demo_run_C1:
  "fst (get_recent_videos demo_env [demo_chan ''C1'' ''U1''] blank) =
     [demo_made ''v1'' ''C1'' (timedelta_days 19) 45 True,
      demo_made ''v2'' ''C1'' (timedelta_days 14) 120 False]"
  by (simp add: demo_defs run_defs)

lemma demo_run_C2:
  "get_recent_videos demo_env [demo_chan ''C2'' ''U2''] blank =
     ([demo_made ''v3'' ''C2'' (timedelta_days 19) (59999 / 1000) True],
      blank\<lparr>requests := [Build, PlaylistItemsList ''U2'', VideosList ''v3,v4''],
            printed := [(''C2'', KeyError)]\<rparr>)"
  by (simp add: demo_defs run_defs)

lemma demo_run_C1_C2:
  "fst (get_recent_videos demo_env [demo_chan ''C1'' ''U1'', demo_chan ''C2'' ''U2''] blank) =
     [demo_made ''v1'' ''C1'' (timedelta_days 19) 45 True,
      demo_made ''v2'' ''C1'' (timedelta_days 14) 120 False,
      demo_made ''v3'' ''C2'' (timedelta_days 19) (59999 / 1000) True]"
  by (simp add: demo_defs run_defs)

lemma demo_raised_C2:
  "raised demo_env (window_start demo_env) (demo_chan ''C2'' ''U2'') = Some KeyError"
  by (simp add: raised_def demo_defs run_defs)

lemma demo_contribution_C2:
  "contribution demo_env (window_start demo_env) (demo_chan ''C2'' ''U2'') =
     [demo_made ''v3'' ''C2'' (timedelta_days 19) (59999 / 1000) True]"
  by (simp add: contribution_def demo_defs run_defs)

lemma demo_window_C1:
  "window_loop demo_env (window_start demo_env)
     [demo_playlist_item ''v1'' ''2024-01-20T00:00:00Z'',
      demo_playlist_item ''v2'' ''2024-01-15T00:00:00Z'',
      demo_playlist_item ''v0'' ''2024-01-11T00:00:00Z''] [] = Inr [''v1'', ''v2'']"
  by (simp add: demo_defs run_defs)

lemma demo_agree_C1: "details_agree demo_env (window_start demo_env) (demo_chan ''C1'' ''U1'')"
  by (simp add: details_agree_def demo_defs run_defs)

lemma demo_requests_C1:
  "requests (snd (get_recent_videos demo_env [demo_chan ''C1'' ''U1''] blank)) =
     [Build, PlaylistItemsList ''U1'', VideosList ''v1,v2'']"
  by (simp add: demo_defs run_defs)

lemma demo_in_window_C1:
  "map pi_videoId (filter (in_window demo_env (window_start demo_env))
     [demo_playlist_item ''v1'' ''2024-01-20T00:00:00Z'',
      demo_playlist_item ''v2'' ''2024-01-15T00:00:00Z'',
      demo_playlist_item ''v0'' ''2024-01-11T00:00:00Z'']) = [Some ''v1'', Some ''v2'']"
  by (simp add: in_window_def demo_defs run_defs)

lemma demo_full_C1:
  "get_recent_videos demo_env [demo_chan ''C1'' ''U1''] blank =
     ([demo_made ''v1'' ''C1'' (timedelta_days 19) 45 True,
       demo_made ''v2'' ''C1'' (timedelta_days 14) 120 False],
      blank\<lparr>requests := [Build, PlaylistItemsList ''U1'', VideosList ''v1,v2'']\<rparr>)"
  by (simp add: demo_defs run_defs)

lemma demo_warm:
  "warm = blank\<lparr>requests := [Build, PlaylistItemsList ''U1'', VideosList ''v1,v2''],
                 cache := [''key'' \<mapsto>
                   \<lparr>ce_value = [demo_made ''v1'' ''C1'' (timedelta_days 19) 45 True,
                                demo_made ''v2'' ''C1'' (timedelta_days 14) 120 False],
                    ce_elements = [], ce_stored = 1000\<rparr>]\<rparr>"
proof -
  have m: "live_entry demo_env blank ''key'' = None"
    by (simp add: live_entry_def blank_def)
  have b: "shown blank = []" "cache blank = Map.empty"
    by (simp_all add: blank_def)
  have c: "cache_clock demo_env = 1000"
    by (simp add: demo_env_def)
  show ?thesis
    by (simp add: warm_def cached_get_recent_videos_def m demo_full_C1 b c)
qed

lemma demo_warm_entry:
  "live_entry demo_env warm ''key'' =
     Some \<lparr>ce_value = [demo_made ''v1'' ''C1'' (timedelta_days 19) 45 True,
                        demo_made ''v2'' ''C1'' (timedelta_days 14) 120 False],
           ce_elements = [], ce_stored = 1000\<rparr>"
proof -
  have c: "cache_clock demo_env = 1000"
    by (simp add: demo_env_def)
  show ?thesis
    by (simp add: demo_warm live_entry_def cache_ttl_def c)
qed

subsection \<open>Classification\<close>

text \<open>
  C3. In every video record that is constructed, \<open>is_short\<close> holds if and only if
  the duration in seconds is below 60; in particular a duration of 59.999 seconds is
  short and a duration of exactly 60 seconds is not.
\<close>

theorem is_short_iff_under_minute:
  assumes "make_video e c item = Inr v"
  shows "(v_is_short v \<longleftrightarrow> v_duration_sec v < 60) \<and>
         (v_duration_sec v = 59999 / 1000 \<longrightarrow> v_is_short v) \<and>
         (v_duration_sec v = 60 \<longrightarrow> \<not> v_is_short v)"
  using make_video_fields [OF assms] by auto

text \<open>
  C3, on concrete input: the records constructed for durations \<open>PT59.999S\<close> and
  \<open>PT1M\<close>.
\<close>

theorem is_short_iff_under_minute_witness:
  "make_video demo_env (demo_chan ''C2'' ''U2'')
      (demo_video_item ''v3'' ''2024-01-20T00:00:00Z'' (Some ''PT59.999S''))
     = Inr (demo_made ''v3'' ''C2'' (timedelta_days 19) (59999 / 1000) True) \<and>
   v_duration_sec (demo_made ''v3'' ''C2'' (timedelta_days 19) (59999 / 1000) True) = 59999 / 1000 \<and>
   v_is_short (demo_made ''v3'' ''C2'' (timedelta_days 19) (59999 / 1000) True) \<and>
   make_video demo_env (demo_chan ''C2'' ''U2'')
      (demo_video_item ''v5'' ''2024-01-20T00:00:00Z'' (Some ''PT1M''))
     = Inr (demo_made ''v5'' ''C2'' (timedelta_days 19) 60 False) \<and>
   v_duration_sec (demo_made ''v5'' ''C2'' (timedelta_days 19) 60 False) = 60 \<and>
   \<not> v_is_short (demo_made ''v5'' ''C2'' (timedelta_days 19) 60 False)"
  using is_short_iff_under_minute [OF demo_make_v3] is_short_iff_under_minute [OF demo_make_v5]
    demo_make_v3 demo_make_v5
  by (simp add: demo_made_def)

subsection \<open>The seven-day window\<close>

text \<open>
  When the details response of every channel agrees with the listing, the timestamps
  stored in the videos are those that passed the test.
\<close>

lemma within_window_when_agreeing:
  assumes "\<forall>c \<in> set cs. details_agree e (window_start e) c"
  shows "\<forall>v \<in> set (fst (get_recent_videos e cs w)).
           datetime_now e - timedelta_days 7 \<le> wall (replace_tzinfo_None (v_published_at v))"
proof
  fix v
  assume "v \<in> set (fst (get_recent_videos e cs w))"
  then obtain c where c: "c \<in> set cs" and v: "v \<in> set (contribution e (window_start e) c)"
    by (auto simp: get_recent_videos_concat split: if_splits)
  from contribution_made [OF v] obtain pl_items video_ids vid_items item where
    pl: "playlistItems_list e (ch_uploads_id c) = Inr pl_items" and
    ids: "window_loop e (window_start e) pl_items [] = Inr video_ids" and
    vr: "videos_list e (join_comma video_ids) = Inr vid_items" and
    item: "item \<in> set vid_items" and mk: "make_video e c item = Inr v"
    by blast
  from make_video_fields [OF mk] obtain p where
    vid: "vi_id item = Some (v_id v)" and p: "vi_publishedAt item = Some p" and
    parsed: "fromisoformat e (replace_Z p) = Inr (v_published_at v)"
    by blast
  from assms c have "details_agree e (window_start e) c" by blast
  with pl ids vr item have
    asked: "\<exists>x \<in> set video_ids. vi_id item = Some x" and
    same: "\<forall>q \<in> set pl_items. pi_videoId q = vi_id item \<longrightarrow> pi_publishedAt q = vi_publishedAt item"
    by (auto simp: details_agree_def)
  from asked vid have "v_id v \<in> set video_ids" by auto
  from window_loop_ids [OF ids this] obtain q s dt where
    q: "q \<in> set pl_items" and qs: "pi_publishedAt q = Some s" and
    qdt: "fromisoformat e (replace_Z s) = Inr dt" and
    inwin: "wall (window_start e) \<le> wall dt" and qv: "pi_videoId q = Some (v_id v)"
    by auto
  from same q qv vid have "pi_publishedAt q = vi_publishedAt item" by simp
  with qs p have "s = p" by simp
  with qdt parsed have "dt = v_published_at v" by simp
  with inwin show "datetime_now e - timedelta_days 7 \<le> wall (replace_tzinfo_None (v_published_at v))"
    by (simp add: window_start_def replace_tzinfo_None_def)
qed

text \<open>
  C2, as amended. The window test is made on the timestamps of the playlist listing:
  every details request asks for exactly the ids of the listed items of one channel
  whose \<open>published_at\<close>, made naive, is not older than \<open>now - 7 days\<close>, so an older
  item is never requested. The timestamp stored in a video is read from the details
  response and is not tested; when the details response of every channel agrees with
  the listing, every video returned has a \<open>published_at\<close> whose naive value is not older
  than \<open>now - 7 days\<close>.
\<close>

theorem aggregated_within_window:
  "(\<exists>rs. requests (snd (get_recent_videos e cs w)) = requests w @ rs \<and>
         (\<forall>s. VideosList s \<in> set rs \<longrightarrow>
            (\<exists>c \<in> set cs. \<exists>pl_items video_ids.
               playlistItems_list e (ch_uploads_id c) = Inr pl_items \<and>
               map Some video_ids =
                 map pi_videoId (filter (in_window e (window_start e)) pl_items) \<and>
               s = join_comma video_ids))) \<and>
   ((\<forall>c \<in> set cs. details_agree e (window_start e) c) \<longrightarrow>
    (\<forall>v \<in> set (fst (get_recent_videos e cs w)).
       datetime_now e - timedelta_days 7 \<le> wall (replace_tzinfo_None (v_published_at v))))"
  using get_recent_videos_requests [of e cs w] within_window_when_agreeing [of cs e w]
  unfolding asked_in_window_def by blast

text \<open>
  C2 as amended, on the sample environment: of the three items listed for channel
  \<open>C1\<close>, the one that is ten days old fails the test; the details request asks for the
  other two and they are the videos returned.
\<close>

theorem aggregated_within_window_witness:
  "details_agree demo_env (window_start demo_env) (demo_chan ''C1'' ''U1'') \<and>
   playlistItems_list demo_env (ch_uploads_id (demo_chan ''C1'' ''U1'')) =
     Inr [demo_playlist_item ''v1'' ''2024-01-20T00:00:00Z'',
          demo_playlist_item ''v2'' ''2024-01-15T00:00:00Z'',
          demo_playlist_item ''v0'' ''2024-01-11T00:00:00Z''] \<and>
   map pi_videoId (filter (in_window demo_env (window_start demo_env))
     [demo_playlist_item ''v1'' ''2024-01-20T00:00:00Z'',
      demo_playlist_item ''v2'' ''2024-01-15T00:00:00Z'',
      demo_playlist_item ''v0'' ''2024-01-11T00:00:00Z'']) = [Some ''v1'', Some ''v2''] \<and>
   requests (snd (get_recent_videos demo_env [demo_chan ''C1'' ''U1''] blank)) =
     requests blank @ [Build, PlaylistItemsList ''U1'', VideosList (join_comma [''v1'', ''v2''])] \<and>
   fst (get_recent_videos demo_env [demo_chan ''C1'' ''U1''] blank) =
     [demo_made ''v1'' ''C1'' (timedelta_days 19) 45 True,
      demo_made ''v2'' ''C1'' (timedelta_days 14) 120 False] \<and>
   datetime_now demo_env - timedelta_days 7
     \<le> wall (replace_tzinfo_None
          (v_published_at (demo_made ''v1'' ''C1'' (timedelta_days 19) 45 True))) \<and>
   datetime_now demo_env - timedelta_days 7
     \<le> wall (replace_tzinfo_None
          (v_published_at (demo_made ''v2'' ''C1'' (timedelta_days 14) 120 False)))"
proof -
  from aggregated_within_window [of demo_env "[demo_chan ''C1'' ''U1'']" blank] demo_agree_C1
  have "\<forall>v \<in> set (fst (get_recent_videos demo_env [demo_chan ''C1'' ''U1''] blank)).
       datetime_now demo_env - timedelta_days 7 \<le> wall (replace_tzinfo_None (v_published_at v))"
    by simp
  moreover have "playlistItems_list demo_env (ch_uploads_id (demo_chan ''C1'' ''U1'')) =
     Inr [demo_playlist_item ''v1'' ''2024-01-20T00:00:00Z'',
          demo_playlist_item ''v2'' ''2024-01-15T00:00:00Z'',
          demo_playlist_item ''v0'' ''2024-01-11T00:00:00Z'']"
    by (simp add: demo_env_def demo_chan_def)
  moreover have "requests blank = []" by (simp add: blank_def)
  ultimately show ?thesis
    using demo_agree_C1 demo_run_C1 demo_requests_C1 demo_in_window_C1 by simp
qed

text \<open>
  C2 as stated fails: when the details response dates the video to 1 January, a
  video whose \<open>published_at\<close> lies twenty days before \<open>now\<close> is returned.
\<close>

theorem aggregated_outside_window:
  "fst (get_recent_videos stale_env [demo_chan ''C1'' ''U1''] blank) =
     [demo_made ''v1'' ''C1'' 0 45 True] \<and>
   \<not> datetime_now stale_env - timedelta_days 7
       \<le> wall (replace_tzinfo_None (v_published_at (demo_made ''v1'' ''C1'' 0 45 True)))"
  by (simp add: stale_env_def demo_defs run_defs)

subsection \<open>Errors while processing a channel\<close>

text \<open>
  C7, as amended. When processing a channel raises an exception, the result is the
  videos of the channels before it, then the videos of that channel appended before
  the exception, then the videos of the channels after it; the exception is printed
  with the title of the channel and the aggregator returns normally.
\<close>

theorem channel_error_contained:
  assumes "build_ok e" and "raised e (window_start e) c = Some err"
  shows "fst (get_recent_videos e (cs1 @ c # cs2) w) =
           fst (get_recent_videos e cs1 w) @ contribution e (window_start e) c @
           fst (get_recent_videos e cs2 w) \<and>
         (ch_title c, err) \<in> set (printed (snd (get_recent_videos e (cs1 @ c # cs2) w)))"
proof
  show "fst (get_recent_videos e (cs1 @ c # cs2) w) =
           fst (get_recent_videos e cs1 w) @ contribution e (window_start e) c @
           fst (get_recent_videos e cs2 w)"
    using assms(1) by (simp add: get_recent_videos_concat)
  obtain acc w1 where s: "channels_loop e (window_start e) cs1 ([], call Build w) = (acc, w1)"
    by (cases "channels_loop e (window_start e) cs1 ([], call Build w)")
  have "snd (get_recent_videos e (cs1 @ c # cs2) w) =
          snd (channels_loop e (window_start e) (c # cs2) (acc, w1))"
    using assms(1) s
    by (simp add: get_recent_videos_def get_youtube_service_def window_start_def Let_def
        channels_loop_append)
  then show "(ch_title c, err) \<in> set (printed (snd (get_recent_videos e (cs1 @ c # cs2) w)))"
    using channels_loop_prints_error [OF assms(2), of cs2 acc w1] by simp
qed

text \<open>
  C7 as amended, on the sample environment: channel \<open>C2\<close> raises \<open>KeyError\<close> at its
  second detail record, after the first has been appended.
\<close>

theorem channel_error_contained_witness:
  "build_ok demo_env \<and>
   raised demo_env (window_start demo_env) (demo_chan ''C2'' ''U2'') = Some KeyError \<and>
   contribution demo_env (window_start demo_env) (demo_chan ''C2'' ''U2'') =
     [demo_made ''v3'' ''C2'' (timedelta_days 19) (59999 / 1000) True] \<and>
   fst (get_recent_videos demo_env
          ([demo_chan ''C2'' ''U2''] @ demo_chan ''C2'' ''U2'' # [demo_chan ''C1'' ''U1'']) blank) =
     fst (get_recent_videos demo_env [demo_chan ''C2'' ''U2''] blank) @
     [demo_made ''v3'' ''C2'' (timedelta_days 19) (59999 / 1000) True] @
     fst (get_recent_videos demo_env [demo_chan ''C1'' ''U1''] blank) \<and>
   (''C2'', KeyError) \<in> set (printed (snd (get_recent_videos demo_env
          ([demo_chan ''C2'' ''U2''] @ demo_chan ''C2'' ''U2'' # [demo_chan ''C1'' ''U1'']) blank)))"
  using channel_error_contained
          [of demo_env "demo_chan ''C2'' ''U2''" KeyError "[demo_chan ''C2'' ''U2'']"
              "[demo_chan ''C1'' ''U1'']" blank]
    demo_raised_C2 demo_contribution_C2
  by (simp add: demo_env_def demo_chan_def)

text \<open>
  C7 as stated fails: the channel that raises still contributes, so the result with
  channel \<open>C2\<close> differs from the result of the remaining channel alone.
\<close>

theorem channel_error_keeps_partial:
  "fst (try_channel demo_env (window_start demo_env) (demo_chan ''C2'' ''U2'') ([], blank))
     = Some KeyError \<and>
   fst (get_recent_videos demo_env [demo_chan ''C1'' ''U1'', demo_chan ''C2'' ''U2''] blank) \<noteq>
   fst (get_recent_videos demo_env [demo_chan ''C1'' ''U1''] blank)"
  using demo_raised_C2 demo_run_C1_C2 demo_run_C1
  by (simp add: raised_def)

subsection \<open>The cache\<close>

text \<open>
  On a miss the decorated function returns what the function under it returns and
  makes the same requests.
\<close>

lemma cached_miss:
  "live_entry e w api_key = None \<Longrightarrow>
   fst (cached_get_recent_videos e chs api_key w) = fst (get_recent_videos e chs w) \<and>
   requests (snd (cached_get_recent_videos e chs api_key w)) =
     requests (snd (get_recent_videos e chs w))"
  by (simp add: cached_get_recent_videos_def split: prod.splits)

text \<open>
  C10, as amended. Invoked with an empty channel list, the aggregator makes no request
  to the API client. It returns the empty list when the cache holds no live entry for
  the API key, and the list of the live entry otherwise: the channel list is not part
  of the cache key.
\<close>

theorem cached_get_recent_videos_empty:
  "requests (snd (cached_get_recent_videos e [] api_key w)) = requests w \<and>
   (live_entry e w api_key = None \<longrightarrow>
      fst (cached_get_recent_videos e [] api_key w) = []) \<and>
   (live_entry e w api_key = Some entry \<longrightarrow>
      fst (cached_get_recent_videos e [] api_key w) = ce_value entry)"
  by (auto simp: cached_get_recent_videos_def get_recent_videos_def split: option.splits)

text \<open>
  C10 as amended, on the sample environment: a cold cache, and the cache as the
  call for channel \<open>C1\<close> has left it.
\<close>

theorem cached_get_recent_videos_empty_witness:
  "live_entry demo_env blank ''key'' = None \<and>
   fst (cached_get_recent_videos demo_env [] ''key'' blank) = [] \<and>
   requests (snd (cached_get_recent_videos demo_env [] ''key'' blank)) = requests blank \<and>
   live_entry demo_env warm ''key'' =
     Some \<lparr>ce_value = [demo_made ''v1'' ''C1'' (timedelta_days 19) 45 True,
                        demo_made ''v2'' ''C1'' (timedelta_days 14) 120 False],
           ce_elements = [], ce_stored = 1000\<rparr> \<and>
   fst (cached_get_recent_videos demo_env [] ''key'' warm) =
     [demo_made ''v1'' ''C1'' (timedelta_days 19) 45 True,
      demo_made ''v2'' ''C1'' (timedelta_days 14) 120 False] \<and>
   requests (snd (cached_get_recent_videos demo_env [] ''key'' warm)) = requests warm"
proof -
  have m: "live_entry demo_env blank ''key'' = None"
    by (simp add: live_entry_def blank_def)
  from cached_get_recent_videos_empty [of demo_env "''key''" blank] m
    cached_get_recent_videos_empty [of demo_env "''key''" warm, OF] demo_warm_entry
  show ?thesis by simp
qed

text \<open>
  C10 as stated fails: after a call for channel \<open>C1\<close>, a call with the empty
  channel list under the same key returns that call's videos.
\<close>

theorem cached_get_recent_videos_warm:
  "fst (cached_get_recent_videos demo_env [] ''key''
          (snd (cached_get_recent_videos demo_env [demo_chan ''C1'' ''U1''] ''key'' blank))) \<noteq> []"
  using demo_warm_entry
  by (simp add: cached_get_recent_videos_def warm_def)

section \<open>Properties of the resolver\<close>

lemma count_searches_append:
  "count_searches (xs @ ys) = count_searches xs + count_searches ys"
  by (induction xs rule: count_searches.induct) auto

lemma except_HttpError_keeps:
  "channels (snd (except_HttpError rw)) = channels (snd rw)"
  "folders (snd (except_HttpError rw)) = folders (snd rw)"
  "requests (snd (except_HttpError rw)) = requests (snd rw)"
  by (auto simp: except_HttpError_def show_msg_def split: prod.splits sum.splits error.splits)

lemma except_HttpError_Inr: "except_HttpError (Inr x, w) = (Inr x, w)"
  by (simp add: except_HttpError_def)

lemma except_HttpError_Some:
  "except_HttpError rw = (Inr (Some c), w') \<Longrightarrow> rw = (Inr (Some c), w')"
  by (auto simp: except_HttpError_def split: prod.splits sum.splits error.splits)

lemma except_HttpError_other:
  "err \<noteq> HttpError \<Longrightarrow> except_HttpError (Inl err, w) = (Inl err, w)"
  by (cases err) (simp_all add: except_HttpError_def)

lemma resolve_item_requests: "requests (snd (resolve_item e item w)) = requests w"
  by (auto simp: resolve_item_def target_folder_def show_msg_def
      split: sum.splits bool.splits prod.splits list.splits)

lemma resolve_item_duplicate:
  assumes "ci_id item = Some cid" "cid \<in> set (map ch_id (channels w))"
  shows "resolve_item e item w = (Inr None, show_msg WarningAlreadyRegistered w)"
proof -
  from assms(2) have "channels w \<noteq> []" by auto
  with assms have "duplicate_check item (channels w) = Inr True"
    by (simp add: duplicate_check_def req_def)
  then show ?thesis by (simp add: resolve_item_def)
qed

lemma resolve_item_folder:
  assumes "resolve_item e item w = (Inr (Some c), w')"
  shows "channels w' = channels w \<and> shown w' = shown w \<and> requests w' = requests w \<and>
         (case folders w of
            [] \<Rightarrow> folders w' = [\<lparr>fo_id = new_folder_id e, fo_name = default_folder_name\<rparr>] \<and>
                  ch_folder_id c = new_folder_id e
          | f # _ \<Rightarrow> folders w' = folders w \<and> ch_folder_id c = fo_id f)"
  using assms
  by (auto simp: resolve_item_def target_folder_def channel_record_def bnd_eq_Inr req_eq_Inr
      split: sum.splits bool.splits prod.splits list.splits)

subsection \<open>One level of the recursion\<close>

lemma fetch_exhausted_build:
  "depth \<le> build_frames e \<Longrightarrow>
   fetch_channel_info depth e ident w = (Inr None, show_msg ErrorApiConnect (call Build w))"
  by (subst fetch_channel_info.simps) (simp add: get_youtube_service_at_def)

lemma fetch_exhausted_execute:
  "build_ok e \<Longrightarrow> build_frames e < depth \<Longrightarrow> depth \<le> execute_frames e \<Longrightarrow>
   fetch_channel_info depth e ident w =
     (Inl RecursionError, call (ChannelsList (lookup_request ident)) (call Build w))"
  by (subst fetch_channel_info.simps)
     (simp add: get_youtube_service_at_def get_youtube_service_def execute_at_def
        except_HttpError_def)

lemma fetch_found:
  "build_ok e \<Longrightarrow> build_frames e < depth \<Longrightarrow> execute_frames e < depth \<Longrightarrow>
   channels_list e (lookup_request ident) = Inr (item # others) \<Longrightarrow>
   fetch_channel_info depth e ident w =
     except_HttpError (resolve_item e item
       (call (ChannelsList (lookup_request ident)) (call Build w)))"
  by (subst fetch_channel_info.simps)
     (simp add: get_youtube_service_at_def get_youtube_service_def execute_at_def)

lemma fetch_hop:
  "build_ok e \<Longrightarrow> build_frames e < depth \<Longrightarrow> execute_frames e < depth \<Longrightarrow>
   channels_list e (lookup_request ident) = Inr [] \<Longrightarrow>
   search_list e ident = Inr (found # others) \<Longrightarrow> si_channelId found = Some cid \<Longrightarrow>
   fetch_channel_info depth e ident w =
     except_HttpError (fetch_channel_info (depth - 1) e cid
       (call (SearchList ident) (call (ChannelsList (lookup_request ident)) (call Build w))))"
  by (subst fetch_channel_info.simps)
     (simp add: get_youtube_service_at_def get_youtube_service_def execute_at_def)

lemma fetch_step:
  "(\<exists>rs. requests (snd (fetch_channel_info depth e ident w)) = requests w @ rs \<and>
         count_searches rs \<le> 1 \<and> (depth = 0 \<longrightarrow> count_searches rs = 0)) \<or>
   (\<exists>cid. 0 < depth \<and>
      fetch_channel_info depth e ident w =
        except_HttpError (fetch_channel_info (depth - 1) e cid
          (call (SearchList ident) (call (ChannelsList (lookup_request ident)) (call Build w)))))"
proof -
  note eq = fetch_channel_info.simps [of depth e ident w]
  show ?thesis
    unfolding eq
    by (auto simp: get_youtube_service_at_def get_youtube_service_def execute_at_def Let_def
        call_def show_msg_def except_HttpError_keeps resolve_item_requests
        split: sum.splits list.splits option.splits if_splits)
qed

lemma fetch_searches_bounded:
  "count_searches (requests (snd (fetch_channel_info depth e ident w)))
     \<le> count_searches (requests w) + depth"
proof (induction depth arbitrary: ident w)
  case 0
  from fetch_step [of 0 e ident w] show ?case
    by (auto simp: count_searches_append)
next
  case (Suc d)
  from fetch_step [of "Suc d" e ident w] show ?case
  proof (elim disjE exE conjE)
    fix rs
    assume "requests (snd (fetch_channel_info (Suc d) e ident w)) = requests w @ rs"
      "count_searches rs \<le> 1"
    then show ?thesis by (simp add: count_searches_append)
  next
    fix cid
    assume st: "fetch_channel_info (Suc d) e ident w =
        except_HttpError (fetch_channel_info (Suc d - 1) e cid
          (call (SearchList ident) (call (ChannelsList (lookup_request ident)) (call Build w))))"
    from Suc.IH [of cid "call (SearchList ident) (call (ChannelsList (lookup_request ident)) (call Build w))"]
    show ?thesis
      unfolding st
      by (simp add: except_HttpError_keeps call_def count_searches_append)
  qed
qed

lemma fetch_channel_info_folder:
  "fetch_channel_info depth e ident w = (Inr (Some c), w') \<Longrightarrow>
     channels w' = channels w \<and> shown w' = shown w \<and>
     (case folders w of
        [] \<Rightarrow> folders w' = [\<lparr>fo_id = new_folder_id e, fo_name = default_folder_name\<rparr>] \<and>
              ch_folder_id c = new_folder_id e
      | f # _ \<Rightarrow> folders w' = folders w \<and> ch_folder_id c = fo_id f)"
proof (induction depth arbitrary: ident w)
  case 0
  from "0.prems" show ?case
    by (simp add: fetch_exhausted_build)
next
  case (Suc d)
  from Suc.prems show ?case
    apply (subst (asm) fetch_channel_info.simps)
    apply (auto simp: get_youtube_service_at_def get_youtube_service_def execute_at_def Let_def
        split: if_splits sum.splits list.splits option.splits
        dest!: except_HttpError_Some)
     apply (auto dest!: Suc.IH resolve_item_folder simp: call_def split: list.splits)
    done
qed

lemma resolved_item_cases:
  assumes "resolved_item depth e ident = Some item"
  shows "build_frames e < depth \<and> execute_frames e < depth \<and>
         ((\<exists>others. channels_list e (lookup_request ident) = Inr (item # others)) \<or>
          (\<exists>found others cid.
             channels_list e (lookup_request ident) = Inr [] \<and>
             search_list e ident = Inr (found # others) \<and> si_channelId found = Some cid \<and>
             resolved_item (depth - 1) e cid = Some item))"
  using assms
  by (subst (asm) resolved_item.simps)
     (auto split: sum.splits list.splits option.splits if_splits)

lemma fetch_duplicate:
  "build_ok e \<Longrightarrow> resolved_item depth e ident = Some item \<Longrightarrow> ci_id item = Some cid \<Longrightarrow>
   cid \<in> set (map ch_id (channels w)) \<Longrightarrow>
   \<exists>w'. fetch_channel_info depth e ident w = (Inr None, w') \<and>
        channels w' = channels w \<and> folders w' = folders w \<and>
        shown w' = shown w @ [WarningAlreadyRegistered]"
proof (induction depth arbitrary: ident w)
  case 0
  from resolved_item_cases [OF "0.prems"(2)] show ?case by simp
next
  case (Suc d)
  from resolved_item_cases [OF Suc.prems(2)] have
    bf: "build_frames e < Suc d" and ef: "execute_frames e < Suc d" and
    alt: "(\<exists>others. channels_list e (lookup_request ident) = Inr (item # others)) \<or>
          (\<exists>found others chid.
             channels_list e (lookup_request ident) = Inr [] \<and>
             search_list e ident = Inr (found # others) \<and> si_channelId found = Some chid \<and>
             resolved_item (Suc d - 1) e chid = Some item)"
    by blast+
  from alt show ?case
  proof (elim disjE exE conjE)
    fix others
    assume l: "channels_list e (lookup_request ident) = Inr (item # others)"
    have "cid \<in> set (map ch_id (channels (call (ChannelsList (lookup_request ident)) (call Build w))))"
      using Suc.prems(4) by (simp add: call_def)
    from resolve_item_duplicate [OF Suc.prems(3) this, of e] show ?thesis
      by (simp add: fetch_found [OF Suc.prems(1) bf ef l] except_HttpError_Inr show_msg_def
          call_def)
  next
    fix found others chid
    assume l: "channels_list e (lookup_request ident) = Inr []"
      and s: "search_list e ident = Inr (found # others)"
      and f: "si_channelId found = Some chid"
      and r: "resolved_item (Suc d - 1) e chid = Some item"
    let ?w2 = "call (SearchList ident) (call (ChannelsList (lookup_request ident)) (call Build w))"
    have m: "cid \<in> set (map ch_id (channels ?w2))"
      using Suc.prems(4) by (simp add: call_def)
    from r have r': "resolved_item d e chid = Some item" by simp
    from Suc.IH [OF Suc.prems(1) r' Suc.prems(3) m] obtain w' where
      "fetch_channel_info d e chid ?w2 = (Inr None, w')"
      "channels w' = channels w" "folders w' = folders w"
      "shown w' = shown w @ [WarningAlreadyRegistered]"
      by (auto simp: call_def)
    then show ?thesis
      by (simp add: fetch_hop [OF Suc.prems(1) bf ef l s f] except_HttpError_Inr)
  qed
qed

subsection \<open>Runs in the sample environment\<close>

lemma demo_stack: "build_ok demo_env" "build_frames demo_env = 2" "execute_frames demo_env = 3"
  by (simp_all add: demo_env_def)

lemma loop_stack: "build_ok loop_env" "build_frames loop_env = 2" "execute_frames loop_env = 3"
  "channels_list loop_env q = Inr []" "search_list loop_env s = Inr [\<lparr>si_channelId = Some s\<rparr>]"
  by (simp_all add: loop_env_def demo_env_def)

lemma demo_new_folder_id: "new_folder_id demo_env = ''f-1700000000''"
  by (simp add: resolver_defs demo_env_def)

lemma demo_first_channel:
  "fetch_channel_info 10 demo_env ''@cycle'' blank =
     (Inr (Some (demo_resolved ''UC1'' ''f-1700000000'')),
      blank\<lparr>folders := [\<lparr>fo_id = ''f-1700000000'', fo_name = default_folder_name\<rparr>],
            requests := [Build, ChannelsList (ForHandle ''@cycle'')]\<rparr>)"
  by (subst fetch_channel_info.simps)
     (simp add: resolver_defs demo_defs)

lemma demo_later_channel:
  "fetch_channel_info 10 demo_env ''@cycle'' (blank\<lparr>folders := demo_folders\<rparr>) =
     (Inr (Some (demo_resolved ''UC1'' ''f-1600000000'')),
      blank\<lparr>folders := demo_folders,
            requests := [Build, ChannelsList (ForHandle ''@cycle'')]\<rparr>)"
  by (subst fetch_channel_info.simps)
     (simp add: resolver_defs demo_defs demo_folders_def)

lemma demo_resolved_item:
  "resolved_item 10 demo_env ''cycle tv'' = Some (demo_channel_item ''UC1'')"
proof -
  have "resolved_item 10 demo_env ''cycle tv'' = resolved_item 9 demo_env ''UC1''"
    by (subst resolved_item.simps)
       (simp add: demo_env_def lookup_request_def startswith_at_def)
  also have "\<dots> = Some (demo_channel_item ''UC1'')"
    by (subst resolved_item.simps)
       (simp add: demo_env_def lookup_request_def startswith_at_def)
  finally show ?thesis .
qed

lemma demo_two_hops:
  "requests (snd (fetch_channel_info 10 demo_env ''old name'' blank)) =
     [Build, ChannelsList (ById ''old name''), SearchList ''old name'',
      Build, ChannelsList (ById ''UC2''), SearchList ''UC2'',
      Build, ChannelsList (ById ''UC3'')]"
proof -
  have h1: "fetch_channel_info 10 demo_env ''old name'' w =
      except_HttpError (fetch_channel_info (10 - 1) demo_env ''UC2''
        (call (SearchList ''old name'') (call (ChannelsList (lookup_request ''old name'')) (call Build w))))" for w
    by (rule fetch_hop [OF demo_stack(1), of _ _ "\<lparr>si_channelId = Some ''UC2''\<rparr>" "[]"])
       (simp_all add: demo_env_def lookup_request_def startswith_at_def)
  have h2: "fetch_channel_info 9 demo_env ''UC2'' w =
      except_HttpError (fetch_channel_info (9 - 1) demo_env ''UC3''
        (call (SearchList ''UC2'') (call (ChannelsList (lookup_request ''UC2'')) (call Build w))))" for w
    by (rule fetch_hop [OF demo_stack(1), of _ _ "\<lparr>si_channelId = Some ''UC3''\<rparr>" "[]"])
       (simp_all add: demo_env_def lookup_request_def startswith_at_def)
  have h3: "fetch_channel_info 8 demo_env ''UC3'' w =
      except_HttpError (resolve_item demo_env (demo_channel_item ''UC3'')
        (call (ChannelsList (lookup_request ''UC3'')) (call Build w)))" for w
    by (rule fetch_found [OF demo_stack(1), of _ _ _ "[]"])
       (simp_all add: demo_env_def lookup_request_def startswith_at_def)
  have n: "(10::nat) - 1 = 9" "(9::nat) - 1 = 8" by simp_all
  show ?thesis
    by (simp only: h1 n h2 h3 except_HttpError_keeps resolve_item_requests)
       (simp add: call_def blank_def lookup_request_def startswith_at_def)
qed

subsection \<open>Duplicates\<close>

text \<open>
  C5. When the identifier leads, directly or through the name search, to a channel
  whose id is already in the channel collection, the resolver returns \<open>None\<close> after
  showing the warning that the channel is already registered; channels and folders
  are unchanged, also after the button handler that called it.
\<close>

theorem duplicate_channel_no_mutation:
  assumes "build_ok e" and "resolved_item depth e ident = Some item"
    and "ci_id item = Some cid" and "cid \<in> set (map ch_id (channels w))"
  shows "fst (fetch_channel_info depth e ident w) = Inr None \<and>
         shown (snd (fetch_channel_info depth e ident w)) = shown w @ [WarningAlreadyRegistered] \<and>
         channels (snd (fetch_channel_info depth e ident w)) = channels w \<and>
         folders (snd (fetch_channel_info depth e ident w)) = folders w \<and>
         channels (snd (add_channel_button depth e api_key ident pick w)) = channels w \<and>
         folders (snd (add_channel_button depth e api_key ident pick w)) = folders w"
proof -
  from fetch_duplicate [OF assms] obtain w' where
    "fetch_channel_info depth e ident w = (Inr None, w')"
    "channels w' = channels w" "folders w' = folders w"
    "shown w' = shown w @ [WarningAlreadyRegistered]"
    by blast
  then show ?thesis
    by (simp add: add_channel_button_def Let_def show_msg_def)
qed

text \<open>
  C5, on the sample environment: the name ``cycle tv'' leads to channel \<open>UC1\<close>,
  which is already registered.
\<close>

theorem duplicate_channel_no_mutation_witness:
  "build_ok demo_env \<and>
   resolved_item 10 demo_env ''cycle tv'' = Some (demo_channel_item ''UC1'') \<and>
   ci_id (demo_channel_item ''UC1'') = Some ''UC1'' \<and>
   ''UC1'' \<in> set (map ch_id (channels (blank\<lparr>channels := [demo_resolved ''UC1'' ''f-1'']\<rparr>))) \<and>
   fst (fetch_channel_info 10 demo_env ''cycle tv'' (blank\<lparr>channels := [demo_resolved ''UC1'' ''f-1'']\<rparr>))
     = Inr None \<and>
   shown (snd (fetch_channel_info 10 demo_env ''cycle tv''
                 (blank\<lparr>channels := [demo_resolved ''UC1'' ''f-1'']\<rparr>))) = [WarningAlreadyRegistered] \<and>
   channels (snd (fetch_channel_info 10 demo_env ''cycle tv''
                 (blank\<lparr>channels := [demo_resolved ''UC1'' ''f-1'']\<rparr>))) = [demo_resolved ''UC1'' ''f-1''] \<and>
   folders (snd (fetch_channel_info 10 demo_env ''cycle tv''
                 (blank\<lparr>channels := [demo_resolved ''UC1'' ''f-1'']\<rparr>))) = [] \<and>
   channels (snd (add_channel_button 10 demo_env ''key'' ''cycle tv'' []
                 (blank\<lparr>channels := [demo_resolved ''UC1'' ''f-1'']\<rparr>))) = [demo_resolved ''UC1'' ''f-1''] \<and>
   folders (snd (add_channel_button 10 demo_env ''key'' ''cycle tv'' []
                 (blank\<lparr>channels := [demo_resolved ''UC1'' ''f-1'']\<rparr>))) = []"
  using duplicate_channel_no_mutation
          [of demo_env 10 "''cycle tv''" "demo_channel_item ''UC1''" "''UC1''"
              "blank\<lparr>channels := [demo_resolved ''UC1'' ''f-1'']\<rparr>" "''key''" "[]"]
    demo_resolved_item
  by (simp add: demo_env_def demo_channel_item_def demo_resolved_def blank_def)

subsection \<open>The default folder\<close>

text \<open>
  C4, as amended. When the resolver returns a channel and there was no folder, exactly
  one folder has been created, named by the Korean literal of the source (not
  ``Default''), with the id generated from the clock, and the channel carries that id;
  the button handler appends this channel unchanged. When there was a folder, the
  folders are unchanged and the channel carries the id of the first one.
\<close>

theorem first_channel_default_folder:
  assumes "fetch_channel_info depth e ident w = (Inr (Some c), w')"
  shows "(folders w = [] \<longrightarrow>
            folders w' = [\<lparr>fo_id = new_folder_id e, fo_name = default_folder_name\<rparr>] \<and>
            ch_folder_id c = new_folder_id e) \<and>
         (folders w \<noteq> [] \<longrightarrow> folders w' = folders w \<and> ch_folder_id c = fo_id (hd (folders w))) \<and>
         (folders w = [] \<and> api_key \<noteq> [] \<and> ident \<noteq> [] \<longrightarrow>
            add_channel_button depth e api_key ident pick w =
              (None, show_msg (SuccessChannelAdded (ch_title c))
                       (w'\<lparr>channels := channels w @ [c], cache := Map.empty\<rparr>)))"
  using fetch_channel_info_folder [OF assms] assms
  by (cases "folders w")
     (simp_all add: add_channel_button_def selected_folder_for_add_def truthy_def)

text \<open>
  C4 as amended, on the sample environment, without folders and with two folders.
\<close>

theorem first_channel_default_folder_witness:
  "fetch_channel_info 10 demo_env ''@cycle'' blank =
     (Inr (Some (demo_resolved ''UC1'' ''f-1700000000'')),
      blank\<lparr>folders := [\<lparr>fo_id = ''f-1700000000'', fo_name = default_folder_name\<rparr>],
            requests := [Build, ChannelsList (ForHandle ''@cycle'')]\<rparr>) \<and>
   folders blank = [] \<and> new_folder_id demo_env = ''f-1700000000'' \<and>
   add_channel_button 10 demo_env ''key'' ''@cycle'' [] blank =
     (None, blank\<lparr>channels := [demo_resolved ''UC1'' ''f-1700000000''],
                  folders := [\<lparr>fo_id = ''f-1700000000'', fo_name = default_folder_name\<rparr>],
                  shown := [SuccessChannelAdded ''Cycle''],
                  requests := [Build, ChannelsList (ForHandle ''@cycle'')]\<rparr>) \<and>
   fetch_channel_info 10 demo_env ''@cycle'' (blank\<lparr>folders := demo_folders\<rparr>) =
     (Inr (Some (demo_resolved ''UC1'' ''f-1600000000'')),
      blank\<lparr>folders := demo_folders,
            requests := [Build, ChannelsList (ForHandle ''@cycle'')]\<rparr>) \<and>
   folders (blank\<lparr>folders := demo_folders\<rparr>) \<noteq> [] \<and>
   fo_id (hd (folders (blank\<lparr>folders := demo_folders\<rparr>))) = ''f-1600000000''"
  using first_channel_default_folder [OF demo_first_channel, of "''key''" "[]"]
    first_channel_default_folder [OF demo_later_channel, of "''key''" "[]"]
    demo_first_channel demo_later_channel demo_new_folder_id
  by (simp add: blank_def demo_folders_def demo_resolved_def show_msg_def)

text \<open>
  C4 as stated fails: the folder created with the first channel is not named
  ``Default''.
\<close>

theorem default_folder_name_differs:
  "map fo_name (folders (snd (fetch_channel_info 10 demo_env ''@cycle'' blank))) =
     [default_folder_name] \<and>
   default_folder_name \<noteq> ''Default''"
  using demo_first_channel by (simp add: default_folder_name_def)

subsection \<open>Fallback hops\<close>

text \<open>
  C6, as amended. When the lookup is empty and the search finds a channel id, the
  resolver runs the whole resolution again on that id, one frame deeper, whatever the
  id is: when its lookup is empty too, it searches again, and the source sets no limit
  on these hops. When the lookup of the id found returns a channel, there is exactly
  one search and the result is that of resolving the channel found. The number of
  searches is at most the number of frames the call stack still allows, so the
  resolution ends on every input: when the stack runs out inside \<^verbatim>\<open>build\<close>, with
  \<open>None\<close> and the message that the API connection failed; when it runs out inside a
  request, with a \<open>RecursionError\<close> that leaves the resolver.
\<close>

theorem fallback_hops:
  "count_searches (requests (snd (fetch_channel_info depth e ident w)))
     \<le> count_searches (requests w) + depth \<and>
   (build_ok e \<and> build_frames e < depth \<and> execute_frames e < depth \<and>
    channels_list e (lookup_request ident) = Inr [] \<and>
    search_list e ident = Inr (found # others) \<and> si_channelId found = Some cid \<longrightarrow>
      fetch_channel_info depth e ident w =
        except_HttpError (fetch_channel_info (depth - 1) e cid
          (call (SearchList ident) (call (ChannelsList (lookup_request ident)) (call Build w))))) \<and>
   (build_ok e \<and> build_frames e < depth - 1 \<and> execute_frames e < depth - 1 \<and>
    channels_list e (lookup_request ident) = Inr [] \<and>
    search_list e ident = Inr (found # others) \<and> si_channelId found = Some cid \<and>
    channels_list e (lookup_request cid) = Inr (item # items) \<longrightarrow>
      fetch_channel_info depth e ident w =
        except_HttpError (except_HttpError (resolve_item e item
          (call (ChannelsList (lookup_request cid)) (call Build
            (call (SearchList ident) (call (ChannelsList (lookup_request ident)) (call Build w))))))) \<and>
      count_searches (requests (snd (fetch_channel_info depth e ident w)))
        = count_searches (requests w) + 1) \<and>
   (depth \<le> build_frames e \<longrightarrow>
      fetch_channel_info depth e ident w = (Inr None, show_msg ErrorApiConnect (call Build w))) \<and>
   (build_ok e \<and> build_frames e < depth \<and> depth \<le> execute_frames e \<longrightarrow>
      fst (fetch_channel_info depth e ident w) = Inl RecursionError)"
proof (intro conjI impI)
  show "count_searches (requests (snd (fetch_channel_info depth e ident w)))
     \<le> count_searches (requests w) + depth"
    by (rule fetch_searches_bounded)
next
  assume "build_ok e \<and> build_frames e < depth \<and> execute_frames e < depth \<and>
    channels_list e (lookup_request ident) = Inr [] \<and>
    search_list e ident = Inr (found # others) \<and> si_channelId found = Some cid"
  then show "fetch_channel_info depth e ident w =
        except_HttpError (fetch_channel_info (depth - 1) e cid
          (call (SearchList ident) (call (ChannelsList (lookup_request ident)) (call Build w))))"
    by (intro fetch_hop) auto
next
  assume h: "build_ok e \<and> build_frames e < depth - 1 \<and> execute_frames e < depth - 1 \<and>
    channels_list e (lookup_request ident) = Inr [] \<and>
    search_list e ident = Inr (found # others) \<and> si_channelId found = Some cid \<and>
    channels_list e (lookup_request cid) = Inr (item # items)"
  then have hop: "fetch_channel_info depth e ident w =
      except_HttpError (fetch_channel_info (depth - 1) e cid
        (call (SearchList ident) (call (ChannelsList (lookup_request ident)) (call Build w))))"
    by (intro fetch_hop) auto
  from h have found: "fetch_channel_info (depth - 1) e cid w2 =
      except_HttpError (resolve_item e item (call (ChannelsList (lookup_request cid)) (call Build w2)))" for w2
    by (intro fetch_found) auto
  show eq: "fetch_channel_info depth e ident w =
        except_HttpError (except_HttpError (resolve_item e item
          (call (ChannelsList (lookup_request cid)) (call Build
            (call (SearchList ident) (call (ChannelsList (lookup_request ident)) (call Build w)))))))"
    by (simp only: hop found)
  show "count_searches (requests (snd (fetch_channel_info depth e ident w)))
        = count_searches (requests w) + 1"
    by (simp only: eq except_HttpError_keeps resolve_item_requests)
       (simp add: call_def count_searches_append)
next
  assume "depth \<le> build_frames e"
  then show "fetch_channel_info depth e ident w = (Inr None, show_msg ErrorApiConnect (call Build w))"
    by (rule fetch_exhausted_build)
next
  assume "build_ok e \<and> build_frames e < depth \<and> depth \<le> execute_frames e"
  then show "fst (fetch_channel_info depth e ident w) = Inl RecursionError"
    by (simp add: fetch_exhausted_execute)
qed

text \<open>
  C6 as amended, on the sample environment: the name ``cycle tv'' is resolved with
  one search; for ``old name'' the resolution re-enters with \<open>UC2\<close>, whose lookup is
  empty, and searches a second time; with two frames left the stack runs out inside
  \<^verbatim>\<open>build\<close>, with three inside the request.
\<close>

theorem fallback_hops_witness:
  "build_ok demo_env \<and> build_frames demo_env < 10 \<and> execute_frames demo_env < 10 \<and>
   build_frames demo_env < 10 - 1 \<and> execute_frames demo_env < 10 - 1 \<and>
   channels_list demo_env (lookup_request ''cycle tv'') = Inr [] \<and>
   search_list demo_env ''cycle tv'' = Inr (\<lparr>si_channelId = Some ''UC1''\<rparr> # []) \<and>
   si_channelId \<lparr>si_channelId = Some ''UC1''\<rparr> = Some ''UC1'' \<and>
   channels_list demo_env (lookup_request ''UC1'') = Inr (demo_channel_item ''UC1'' # []) \<and>
   count_searches (requests (snd (fetch_channel_info 10 demo_env ''cycle tv'' blank))) = 1 \<and>
   channels_list demo_env (lookup_request ''old name'') = Inr [] \<and>
   search_list demo_env ''old name'' = Inr (\<lparr>si_channelId = Some ''UC2''\<rparr> # []) \<and>
   fetch_channel_info 10 demo_env ''old name'' blank =
     except_HttpError (fetch_channel_info (10 - 1) demo_env ''UC2''
       (call (SearchList ''old name'')
         (call (ChannelsList (lookup_request ''old name'')) (call Build blank)))) \<and>
   requests (snd (fetch_channel_info 10 demo_env ''old name'' blank)) =
     [Build, ChannelsList (ById ''old name''), SearchList ''old name'',
      Build, ChannelsList (ById ''UC2''), SearchList ''UC2'',
      Build, ChannelsList (ById ''UC3'')] \<and>
   count_searches (requests (snd (fetch_channel_info 10 demo_env ''old name'' blank))) \<le> 10 \<and>
   2 \<le> build_frames demo_env \<and>
   fetch_channel_info 2 demo_env ''@cycle'' blank =
     (Inr None, show_msg ErrorApiConnect (call Build blank)) \<and>
   build_frames demo_env < 3 \<and> 3 \<le> execute_frames demo_env \<and>
   fst (fetch_channel_info 3 demo_env ''@cycle'' blank) = Inl RecursionError"
proof -
  have h: "build_ok demo_env \<and> build_frames demo_env < 10 \<and> execute_frames demo_env < 10 \<and>
    build_frames demo_env < 10 - 1 \<and> execute_frames demo_env < 10 - 1 \<and>
    channels_list demo_env (lookup_request ''cycle tv'') = Inr [] \<and>
    search_list demo_env ''cycle tv'' = Inr (\<lparr>si_channelId = Some ''UC1''\<rparr> # []) \<and>
    si_channelId \<lparr>si_channelId = Some ''UC1''\<rparr> = Some ''UC1'' \<and>
    channels_list demo_env (lookup_request ''UC1'') = Inr (demo_channel_item ''UC1'' # []) \<and>
    channels_list demo_env (lookup_request ''old name'') = Inr [] \<and>
    search_list demo_env ''old name'' = Inr (\<lparr>si_channelId = Some ''UC2''\<rparr> # []) \<and>
    si_channelId \<lparr>si_channelId = Some ''UC2''\<rparr> = Some ''UC2'' \<and>
    2 \<le> build_frames demo_env \<and> build_frames demo_env < 3 \<and> 3 \<le> execute_frames demo_env"
    by (simp add: demo_env_def lookup_request_def startswith_at_def)
  have z: "count_searches (requests blank) = 0"
    by (simp add: blank_def)
  note one = fallback_hops [of 10 demo_env "''cycle tv''" blank
          "\<lparr>si_channelId = Some ''UC1''\<rparr>" "[]" "''UC1''" "demo_channel_item ''UC1''" "[]"]
  note two = fallback_hops [of 10 demo_env "''old name''" blank
          "\<lparr>si_channelId = Some ''UC2''\<rparr>" "[]" "''UC2''" "demo_channel_item ''UC1''" "[]"]
  note low = fallback_hops [of 2 demo_env "''@cycle''" blank
          "\<lparr>si_channelId = Some ''UC1''\<rparr>" "[]" "''UC1''" "demo_channel_item ''UC1''" "[]"]
  note mid = fallback_hops [of 3 demo_env "''@cycle''" blank
          "\<lparr>si_channelId = Some ''UC1''\<rparr>" "[]" "''UC1''" "demo_channel_item ''UC1''" "[]"]
  from one h have c1: "count_searches (requests (snd (fetch_channel_info 10 demo_env ''cycle tv'' blank)))
      = count_searches (requests blank) + 1"
    by blast
  from two h have c2: "fetch_channel_info 10 demo_env ''old name'' blank =
     except_HttpError (fetch_channel_info (10 - 1) demo_env ''UC2''
       (call (SearchList ''old name'')
         (call (ChannelsList (lookup_request ''old name'')) (call Build blank))))"
    by blast
  from two have c3: "count_searches (requests (snd (fetch_channel_info 10 demo_env ''old name'' blank)))
      \<le> count_searches (requests blank) + 10"
    by (rule conjunct1)
  from low h have c4: "fetch_channel_info 2 demo_env ''@cycle'' blank =
     (Inr None, show_msg ErrorApiConnect (call Build blank))"
    by blast
  from mid h have c5: "fst (fetch_channel_info 3 demo_env ''@cycle'' blank) = Inl RecursionError"
    by blast
  from h c1 c2 c3 c4 c5 z demo_two_hops show ?thesis
    by (intro conjI) simp_all
qed

text \<open>
  C6 as stated fails: for ``old name'' the resolver makes two searches.
\<close>

theorem second_fallback_hop:
  "count_searches (requests (snd (fetch_channel_info 10 demo_env ''old name'' blank))) = 2"
  using demo_two_hops by simp

text \<open>
  When no lookup ever returns a channel, the resolver searches once at every level
  until the stack runs out: inside the request when the request needs more frames than
  \<^verbatim>\<open>build\<close>, inside \<^verbatim>\<open>build\<close> otherwise.
\<close>

lemma fetch_until_limit:
  "\<exists>w'. fetch_channel_info (3 + n) loop_env ident w = (Inl RecursionError, w') \<and>
        count_searches (requests w') = count_searches (requests w) + n"
proof (induction n arbitrary: ident w)
  case 0
  show ?case
    by (simp add: fetch_exhausted_execute loop_stack call_def count_searches_append)
next
  case (Suc n)
  let ?w2 = "call (SearchList ident) (call (ChannelsList (lookup_request ident)) (call Build w))"
  have hop: "fetch_channel_info (Suc (3 + n)) loop_env ident w =
      except_HttpError (fetch_channel_info (3 + n) loop_env ident ?w2)"
    using fetch_hop [OF loop_stack(1), of "Suc (3 + n)" ident "\<lparr>si_channelId = Some ident\<rparr>" "[]" ident w]
    by (simp add: loop_stack)
  from Suc.IH [of ident ?w2] obtain w' where
    a: "fetch_channel_info (3 + n) loop_env ident ?w2 = (Inl RecursionError, w')" and
    b: "count_searches (requests w') = count_searches (requests ?w2) + n"
    by blast
  have "fetch_channel_info (3 + Suc n) loop_env ident w = (Inl RecursionError, w')"
    unfolding add_Suc_right hop a by (simp add: except_HttpError_other)
  with b show ?case
    by (simp add: call_def count_searches_append)
qed

lemma fetch_until_limit_in_build:
  "\<exists>w'. fetch_channel_info (5 + n) (loop_env\<lparr>build_frames := 5\<rparr>) ident w = (Inr None, w') \<and>
        last (shown w') = ErrorApiConnect \<and>
        count_searches (requests w') = count_searches (requests w) + n"
proof (induction n arbitrary: ident w)
  case 0
  show ?case
    by (simp add: fetch_exhausted_build show_msg_def call_def count_searches_append)
next
  case (Suc n)
  let ?e = "loop_env\<lparr>build_frames := 5\<rparr>"
  let ?w2 = "call (SearchList ident) (call (ChannelsList (lookup_request ident)) (call Build w))"
  have hop: "fetch_channel_info (Suc (5 + n)) ?e ident w =
      except_HttpError (fetch_channel_info (5 + n) ?e ident ?w2)"
    using fetch_hop [of ?e "Suc (5 + n)" ident "\<lparr>si_channelId = Some ident\<rparr>" "[]" ident w]
    by (simp add: loop_stack)
  from Suc.IH [of ident ?w2] obtain w' where
    a: "fetch_channel_info (5 + n) ?e ident ?w2 = (Inr None, w')" and
    b: "last (shown w') = ErrorApiConnect"
       "count_searches (requests w') = count_searches (requests ?w2) + n"
    by blast
  have "fetch_channel_info (5 + Suc n) ?e ident w = (Inr None, w')"
    unfolding add_Suc_right hop a by (simp add: except_HttpError_Inr)
  with b show ?case
    by (simp add: call_def count_searches_append)
qed

subsection \<open>Folder ids\<close>

text \<open>
  C8. Two folders added within the same second, at clock readings 1700000000.2 and
  1700000000.7, receive the same id.
\<close>

theorem folder_ids_collide:
  "folders (add_folder_button (demo_env\<lparr>time_time := Fract 17000000007 10\<rparr>) ''B''
             (add_folder_button demo_env ''A'' blank)) =
     [\<lparr>fo_id = ''f-1700000000'', fo_name = ''A''\<rparr>,
      \<lparr>fo_id = ''f-1700000000'', fo_name = ''B''\<rparr>]"
  by (simp add: add_folder_button_def resolver_defs demo_env_def)

end
